theory Spec2Isabelle
  imports Complex_Main
begin

section \<open>Scalars: C++ float values\<close>

text \<open>
  A C++ \<^verbatim>\<open>float\<close> is a finite number, an infinity or a NaN.  Finite values are
  modelled as reals: rounding, overflow to infinity and the sign of zero are not
  modelled.  The special values follow IEEE 754: a NaN operand gives NaN, the
  differences of equal infinities and the products of zero and an infinity are NaN,
  a division of a nonzero number by zero is an infinity, and every comparison with
  NaN is false.
\<close>

datatype flt = FNum real | FPosInf | FNegInf | FNaN

fun fneg :: "flt \<Rightarrow> flt" where
  "fneg (FNum a) = FNum (- a)"
| "fneg FPosInf = FNegInf"
| "fneg FNegInf = FPosInf"
| "fneg FNaN = FNaN"

fun fadd :: "flt \<Rightarrow> flt \<Rightarrow> flt" where
  "fadd (FNum a) (FNum b) = FNum (a + b)"
| "fadd FNaN _ = FNaN"
| "fadd _ FNaN = FNaN"
| "fadd FPosInf FNegInf = FNaN"
| "fadd FNegInf FPosInf = FNaN"
| "fadd FPosInf _ = FPosInf"
| "fadd FNegInf _ = FNegInf"
| "fadd _ FPosInf = FPosInf"
| "fadd _ FNegInf = FNegInf"

definition fsub :: "flt \<Rightarrow> flt \<Rightarrow> flt" where
  "fsub a b = fadd a (fneg b)"

text \<open>The infinity whose sign is the sign of a nonzero real; NaN for zero.\<close>

definition finf :: "real \<Rightarrow> flt" where
  "finf s = (if s = 0 then FNaN else if 0 < s then FPosInf else FNegInf)"

fun fmul :: "flt \<Rightarrow> flt \<Rightarrow> flt" where
  "fmul (FNum a) (FNum b) = FNum (a * b)"
| "fmul FNaN _ = FNaN"
| "fmul _ FNaN = FNaN"
| "fmul (FNum a) FPosInf = finf a"
| "fmul (FNum a) FNegInf = finf (- a)"
| "fmul FPosInf (FNum b) = finf b"
| "fmul FNegInf (FNum b) = finf (- b)"
| "fmul FPosInf FPosInf = FPosInf"
| "fmul FNegInf FNegInf = FPosInf"
| "fmul FPosInf FNegInf = FNegInf"
| "fmul FNegInf FPosInf = FNegInf"

fun fdiv :: "flt \<Rightarrow> flt \<Rightarrow> flt" where
  "fdiv (FNum a) (FNum b) = (if b = 0 then finf a else FNum (a / b))"
| "fdiv FNaN _ = FNaN"
| "fdiv _ FNaN = FNaN"
| "fdiv (FNum a) _ = FNum 0"
| "fdiv FPosInf (FNum b) = (if 0 \<le> b then FPosInf else FNegInf)"
| "fdiv FNegInf (FNum b) = (if 0 \<le> b then FNegInf else FPosInf)"
| "fdiv FPosInf FPosInf = FNaN"
| "fdiv FPosInf FNegInf = FNaN"
| "fdiv FNegInf FPosInf = FNaN"
| "fdiv FNegInf FNegInf = FNaN"

fun fsqrt :: "flt \<Rightarrow> flt" where
  "fsqrt (FNum a) = (if a < 0 then FNaN else FNum (sqrt a))"
| "fsqrt FPosInf = FPosInf"
| "fsqrt FNegInf = FNaN"
| "fsqrt FNaN = FNaN"

fun fabs :: "flt \<Rightarrow> flt" where
  "fabs (FNum a) = FNum \<bar>a\<bar>"
| "fabs FPosInf = FPosInf"
| "fabs FNegInf = FPosInf"
| "fabs FNaN = FNaN"

text \<open>The comparison \<^verbatim>\<open>a < b\<close>.\<close>

fun fless :: "flt \<Rightarrow> flt \<Rightarrow> bool" where
  "fless (FNum a) (FNum b) = (a < b)"
| "fless FNaN _ = False"
| "fless _ FNaN = False"
| "fless FNegInf FNegInf = False"
| "fless FNegInf _ = True"
| "fless FPosInf _ = False"
| "fless _ FPosInf = True"
| "fless _ FNegInf = False"

text \<open>\<^verbatim>\<open>std::max(a, b)\<close> is \<^verbatim>\<open>(a < b) ? b : a\<close>.\<close>

definition fmax :: "flt \<Rightarrow> flt \<Rightarrow> flt" where
  "fmax a b = (if fless a b then b else a)"

fun fcos :: "flt \<Rightarrow> flt" where
  "fcos (FNum a) = FNum (cos a)"
| "fcos _ = FNaN"

fun fsin :: "flt \<Rightarrow> flt" where
  "fsin (FNum a) = FNum (sin a)"
| "fsin _ = FNaN"

fun ftan :: "flt \<Rightarrow> flt" where
  "ftan (FNum a) = FNum (tan a)"
| "ftan _ = FNaN"

definition is_nan :: "flt \<Rightarrow> bool" where
  "is_nan a = (a = FNaN)"


section \<open>The glm vector and matrix types\<close>

datatype vec3 = Vec3 (v3x: flt) (v3y: flt) (v3z: flt)

datatype vec4 = Vec4 (v4x: flt) (v4y: flt) (v4z: flt) (v4w: flt)

text \<open>A \<^verbatim>\<open>glm::mat4\<close> is column major: \<^verbatim>\<open>m[i]\<close> is the i-th column.\<close>

datatype mat4 = Mat4 (col0: vec4) (col1: vec4) (col2: vec4) (col3: vec4)

definition vec3_of :: "real \<Rightarrow> real \<Rightarrow> real \<Rightarrow> vec3" where
  "vec3_of a b c = Vec3 (FNum a) (FNum b) (FNum c)"

definition vec4_of :: "real \<Rightarrow> real \<Rightarrow> real \<Rightarrow> real \<Rightarrow> vec4" where
  "vec4_of a b c d = Vec4 (FNum a) (FNum b) (FNum c) (FNum d)"

text \<open>\<^verbatim>\<open>glm::mat4(1.0f)\<close>, the identity.\<close>

definition mat4_identity :: mat4 where
  "mat4_identity = Mat4 (vec4_of 1 0 0 0) (vec4_of 0 1 0 0) (vec4_of 0 0 1 0) (vec4_of 0 0 0 1)"

definition vadd3 :: "vec3 \<Rightarrow> vec3 \<Rightarrow> vec3" where
  "vadd3 a b = Vec3 (fadd (v3x a) (v3x b)) (fadd (v3y a) (v3y b)) (fadd (v3z a) (v3z b))"

definition vsub3 :: "vec3 \<Rightarrow> vec3 \<Rightarrow> vec3" where
  "vsub3 a b = Vec3 (fsub (v3x a) (v3x b)) (fsub (v3y a) (v3y b)) (fsub (v3z a) (v3z b))"

definition vscale3 :: "flt \<Rightarrow> vec3 \<Rightarrow> vec3" where
  "vscale3 k a = Vec3 (fmul (v3x a) k) (fmul (v3y a) k) (fmul (v3z a) k)"

definition vadd4 :: "vec4 \<Rightarrow> vec4 \<Rightarrow> vec4" where
  "vadd4 a b = Vec4 (fadd (v4x a) (v4x b)) (fadd (v4y a) (v4y b))
                    (fadd (v4z a) (v4z b)) (fadd (v4w a) (v4w b))"

definition vsub4 :: "vec4 \<Rightarrow> vec4 \<Rightarrow> vec4" where
  "vsub4 a b = Vec4 (fsub (v4x a) (v4x b)) (fsub (v4y a) (v4y b))
                    (fsub (v4z a) (v4z b)) (fsub (v4w a) (v4w b))"

definition vscale4 :: "flt \<Rightarrow> vec4 \<Rightarrow> vec4" where
  "vscale4 k a = Vec4 (fmul (v4x a) k) (fmul (v4y a) k) (fmul (v4z a) k) (fmul (v4w a) k)"

text \<open>\<^verbatim>\<open>glm::dot\<close>: the componentwise product, summed.\<close>

definition dot3 :: "vec3 \<Rightarrow> vec3 \<Rightarrow> flt" where
  "dot3 a b = fadd (fadd (fmul (v3x a) (v3x b)) (fmul (v3y a) (v3y b))) (fmul (v3z a) (v3z b))"

definition dot4 :: "vec4 \<Rightarrow> vec4 \<Rightarrow> flt" where
  "dot4 a b = fadd (fadd (fmul (v4x a) (v4x b)) (fmul (v4y a) (v4y b)))
                   (fadd (fmul (v4z a) (v4z b)) (fmul (v4w a) (v4w b)))"

text \<open>\<^verbatim>\<open>glm::cross(x, y)\<close>.\<close>

definition cross :: "vec3 \<Rightarrow> vec3 \<Rightarrow> vec3" where
  "cross x y = Vec3 (fsub (fmul (v3y x) (v3z y)) (fmul (v3y y) (v3z x)))
                    (fsub (fmul (v3z x) (v3x y)) (fmul (v3z y) (v3x x)))
                    (fsub (fmul (v3x x) (v3y y)) (fmul (v3x y) (v3y x)))"

text \<open>
  \<^verbatim>\<open>glm::normalize(v)\<close> is \<^verbatim>\<open>v * inversesqrt(dot(v, v))\<close> and
  \<^verbatim>\<open>inversesqrt(x)\<close> is \<^verbatim>\<open>1 / sqrt(x)\<close>: there is no test for a zero vector.
\<close>

definition inversesqrt :: "flt \<Rightarrow> flt" where
  "inversesqrt x = fdiv (FNum 1) (fsqrt x)"

definition normalize :: "vec3 \<Rightarrow> vec3" where
  "normalize v = vscale3 (inversesqrt (dot3 v v)) v"

text \<open>\<^verbatim>\<open>m * v\<close> of a matrix and a column vector.\<close>

definition mat_vec :: "mat4 \<Rightarrow> vec4 \<Rightarrow> vec4" where
  "mat_vec m v = vadd4 (vadd4 (vscale4 (v4x v) (col0 m)) (vscale4 (v4y v) (col1 m)))
                       (vadd4 (vscale4 (v4z v) (col2 m)) (vscale4 (v4w v) (col3 m)))"

text \<open>\<^verbatim>\<open>a * b\<close> of two matrices: column i is the combination of the columns of a by column i of b.\<close>

definition mat_col :: "mat4 \<Rightarrow> vec4 \<Rightarrow> vec4" where
  "mat_col a v = vadd4 (vadd4 (vadd4 (vscale4 (v4x v) (col0 a)) (vscale4 (v4y v) (col1 a)))
                              (vscale4 (v4z v) (col2 a))) (vscale4 (v4w v) (col3 a))"

definition mat_mul :: "mat4 \<Rightarrow> mat4 \<Rightarrow> mat4" where
  "mat_mul a b = Mat4 (mat_col a (col0 b)) (mat_col a (col1 b)) (mat_col a (col2 b)) (mat_col a (col3 b))"

definition mat4_entries :: "mat4 \<Rightarrow> flt list" where
  "mat4_entries m = concat (map (\<lambda>c. [v4x c, v4y c, v4z c, v4w c]) [col0 m, col1 m, col2 m, col3 m])"


section \<open>Scene nodes\<close>

text \<open>
  A \<^verbatim>\<open>VESceneNode\<close> holds its local transform, the pointer to its parent
  (\<^verbatim>\<open>nullptr\<close> is \<open>None\<close>) and the list of pointers to its children.  Pointers are
  addresses (natural numbers) into a store that holds the node part of every object.
  The classes derived from the scene node extend the record.
\<close>

record node =
  m_transform :: mat4
  m_parent :: "nat option"
  m_children :: "nat list"

type_synonym store = "nat \<Rightarrow> node"

definition getTransform :: "'a node_scheme \<Rightarrow> mat4" where
  "getTransform this = m_transform this"

definition setTransform :: "'a node_scheme \<Rightarrow> mat4 \<Rightarrow> 'a node_scheme" where
  "setTransform this transf = this\<lparr>m_transform := transf\<rparr>"

definition setPosition :: "'a node_scheme \<Rightarrow> vec3 \<Rightarrow> 'a node_scheme" where
  "setPosition this pos =
     this\<lparr>m_transform := (case m_transform this of
        Mat4 c0 c1 c2 c3 \<Rightarrow> Mat4 c0 c1 c2 (Vec4 (v3x pos) (v3y pos) (v3z pos) (FNum 1)))\<rparr>"

definition getPosition :: "'a node_scheme \<Rightarrow> vec3" where
  "getPosition this = (let c = col3 (m_transform this) in Vec3 (v4x c) (v4y c) (v4z c))"

definition multiplyTransform :: "'a node_scheme \<Rightarrow> mat4 \<Rightarrow> 'a node_scheme" where
  "multiplyTransform this transf = setTransform this (mat_mul transf (m_transform this))"

text \<open>
  \<^verbatim>\<open>getWorldTransform\<close> calls itself on the parent.  On a parent chain that runs into a
  cycle the C++ recursion never returns: the result is then \<open>None\<close>.
\<close>

partial_function (option) getWorldTransform :: "store \<Rightarrow> nat \<Rightarrow> mat4 option" where
  "getWorldTransform s n =
     (case m_parent (s n) of
        Some p \<Rightarrow> Option.bind (getWorldTransform s p) (\<lambda>w. Some (mat_mul w (m_transform (s n))))
      | None \<Rightarrow> Some (m_transform (s n)))"

text \<open>The same method on an object that is given by value (a camera, a light).\<close>

definition worldTransformOf :: "store \<Rightarrow> 'a node_scheme \<Rightarrow> mat4 option" where
  "worldTransformOf s this =
     (case m_parent this of
        Some p \<Rightarrow> Option.bind (getWorldTransform s p) (\<lambda>w. Some (mat_mul w (m_transform this)))
      | None \<Rightarrow> Some (m_transform this))"

text \<open>
  The parent chain of a node: \<open>chain s n ps\<close> holds when \<open>ps\<close> lists the ancestors of
  \<open>n\<close>, the parent first and a node without parent last.
\<close>

fun chain :: "store \<Rightarrow> nat \<Rightarrow> nat list \<Rightarrow> bool" where
  "chain s n [] = (m_parent (s n) = None)"
| "chain s n (p # ps) = (m_parent (s n) = Some p \<and> chain s p ps)"

text \<open>
  The fold of the local transforms up a chain of nodes, the node itself first:
  the product of the transforms from the root down to the node.
\<close>

fun worldFold :: "store \<Rightarrow> nat \<Rightarrow> nat list \<Rightarrow> mat4" where
  "worldFold s n [] = m_transform (s n)"
| "worldFold s n (p # ps) = mat_mul (worldFold s p ps) (m_transform (s n))"

text \<open>
  \<^verbatim>\<open>lookAt\<close> writes the position column, then builds the three axes.  The test
  \<^verbatim>\<open>fabs(1.0f - fabs(corr)) < 0.00001f\<close> replaces \<open>up\<close> when it is lined up
  with the view direction.
\<close>

definition lookAt_matrix :: "vec3 \<Rightarrow> vec3 \<Rightarrow> vec3 \<Rightarrow> mat4" where
  "lookAt_matrix eye point up =
     (let t3 = Vec4 (v3x eye) (v3y eye) (v3z eye) (FNum 1);
          z = normalize (vsub3 point eye);
          up1 = normalize up;
          corr = dot3 z up1;
          up2 = (if fless (fabs (fsub (FNum 1) (fabs corr))) (FNum 0.00001)
                 then (let sc = fadd (fadd (v3x z) (v3y z)) (v3z z) in normalize (Vec3 sc sc sc))
                 else up1);
          t2 = Vec4 (v3x z) (v3y z) (v3z z) (FNum 0);
          x = normalize (cross up2 z);
          t0 = Vec4 (v3x x) (v3y x) (v3z x) (FNum 0);
          y = normalize (cross z x);
          t1 = Vec4 (v3x y) (v3y y) (v3z y) (FNum 0)
      in Mat4 t0 t1 t2 t3)"

definition lookAt :: "'a node_scheme \<Rightarrow> vec3 \<Rightarrow> vec3 \<Rightarrow> vec3 \<Rightarrow> 'a node_scheme" where
  "lookAt this eye point up = this\<lparr>m_transform := lookAt_matrix eye point up\<rparr>"

text \<open>
  \<^verbatim>\<open>removeChild\<close>: the loop looks for the first position that holds the child,
  overwrites it with the last child, drops the last position and returns.  The parent
  pointer of the removed child is left as it is.  The index of the source is a 32-bit
  unsigned integer; a child list is taken to be shorter than \<open>2 ^ 32\<close>.
\<close>

function removeChild_loop :: "nat list \<Rightarrow> nat \<Rightarrow> nat \<Rightarrow> nat list" where
  "removeChild_loop children pEntity i =
     (if i < length children then
        (if pEntity = children ! i
         then butlast (children[i := last children])
         else removeChild_loop children pEntity (i + 1))
      else children)"
  by pat_completeness auto
termination
  by (relation "measure (\<lambda>(children, pEntity, i). length children - i)") auto

definition removeChild :: "store \<Rightarrow> nat \<Rightarrow> nat \<Rightarrow> store" where
  "removeChild s this pEntity =
     s(this := (s this)\<lparr>m_children := removeChild_loop (m_children (s this)) pEntity 0\<rparr>)"

definition addChild :: "store \<Rightarrow> nat \<Rightarrow> nat \<Rightarrow> store" where
  "addChild s this pObject =
     (let s1 = (case m_parent (s pObject) of
                  Some p \<Rightarrow> removeChild s p pObject
                | None \<Rightarrow> s);
          s2 = s1(pObject := (s1 pObject)\<lparr>m_parent := Some this\<rparr>)
      in s2(this := (s2 this)\<lparr>m_children := m_children (s2 this) @ [pObject]\<rparr>))"

text \<open>The constructor of a scene node, for the new object at address \<open>this\<close>.\<close>

definition VESceneNode_ctor :: "store \<Rightarrow> nat \<Rightarrow> mat4 \<Rightarrow> nat option \<Rightarrow> store" where
  "VESceneNode_ctor s this transf parent =
     (let s1 = s(this := \<lparr>m_transform = m_transform (s this), m_parent = parent, m_children = []\<rparr>);
          s2 = (case parent of Some p \<Rightarrow> addChild s1 p this | None \<Rightarrow> s1)
      in s2(this := setTransform (s2 this) transf))"

text \<open>The operations of the scene graph that change the parent and child links.\<close>

datatype tree_op = AddChild nat nat | RemoveChild nat nat

fun apply_op :: "store \<Rightarrow> tree_op \<Rightarrow> store" where
  "apply_op s (AddChild this pObject) = addChild s this pObject"
| "apply_op s (RemoveChild this pEntity) = removeChild s this pEntity"

fun apply_ops :: "store \<Rightarrow> tree_op list \<Rightarrow> store" where
  "apply_ops s [] = s"
| "apply_ops s (x # xs) = apply_ops (apply_op s x) xs"

text \<open>
  The links are well formed when no child list holds a node twice and every node in
  the child list of \<open>p\<close> has \<open>p\<close> as its parent pointer.
\<close>

definition links_ok :: "store \<Rightarrow> bool" where
  "links_ok s \<longleftrightarrow> (\<forall>p. distinct (m_children (s p))) \<and>
                 (\<forall>p n. n \<in> set (m_children (s p)) \<longrightarrow> m_parent (s n) = Some p)"





text \<open>
  \<^verbatim>\<open>getOBB\<close>: the six directions are the columns of the world matrix and their
  negations; for each direction the largest projection of a point is kept.  The points
  that reach the maxima (\<^verbatim>\<open>box\<close>) are stored by the source but never read, and are
  left out.  The source reads \<^verbatim>\<open>points[0]\<close>: on an empty list there is no defined
  result (\<open>None\<close>).
\<close>

fun getOBB_inner :: "vec4 list \<Rightarrow> flt list \<Rightarrow> vec4 \<Rightarrow> flt list" where
  "getOBB_inner (a # axes) (m # maxvalues) p =
     (let tmp = dot4 a p in (if fless m tmp then tmp else m) # getOBB_inner axes maxvalues p)"
| "getOBB_inner _ _ p = []"

fun getOBB_outer :: "vec4 list \<Rightarrow> flt list \<Rightarrow> vec4 list \<Rightarrow> flt list" where
  "getOBB_outer axes maxvalues [] = maxvalues"
| "getOBB_outer axes maxvalues (p # points) = getOBB_outer axes (getOBB_inner axes maxvalues p) points"

definition getOBB :: "mat4 \<Rightarrow> vec4 list \<Rightarrow> (vec3 \<times> flt \<times> flt \<times> flt) option" where
  "getOBB W points =
     (case points of
        [] \<Rightarrow> None
      | p0 # rest \<Rightarrow>
         (let axes = [vscale4 (FNum (- 1)) (col0 W), col0 W,
                      vscale4 (FNum (- 1)) (col1 W), col1 W,
                      vscale4 (FNum (- 1)) (col2 W), col2 W];
              maxvalues = getOBB_outer axes (map (\<lambda>a. dot4 a p0) axes) rest;
              width = fadd (maxvalues ! 1) (maxvalues ! 0);
              height = fadd (maxvalues ! 3) (maxvalues ! 2);
              depth = fadd (maxvalues ! 5) (maxvalues ! 4);
              center4 = mat_vec W (Vec4 (fadd (fneg (maxvalues ! 0)) (fdiv width (FNum 2)))
                                        (fadd (fneg (maxvalues ! 2)) (fdiv height (FNum 2)))
                                        (fadd (fneg (maxvalues ! 4)) (fdiv depth (FNum 2)))
                                        (FNum 0))
          in Some (Vec3 (v4x center4) (v4y center4) (v4z center4), width, height, depth)))"


section \<open>Cameras\<close>

text \<open>
  \<^verbatim>\<open>VECamera\<close> with its two subclasses.  One record holds the members of both; the
  class tag selects the virtual methods.  The uniform block of a camera and its upload
  (\<^verbatim>\<open>update\<close>, \<^verbatim>\<open>updateUBO\<close>) are not modelled.
\<close>

datatype camera_class = VECameraProjective | VECameraOrtho

record camera = node +
  cam_class :: camera_class
  m_nearPlane :: flt
  m_farPlane :: flt
  m_nearPlaneFraction :: flt
  m_farPlaneFraction :: flt
  m_aspectRatio :: flt
  m_fov :: flt
  m_width :: flt
  m_height :: flt

text \<open>\<^verbatim>\<open>glm::radians\<close> multiplies by the constant that glm uses for \<open>\<pi> / 180\<close>.\<close>

definition radians :: "flt \<Rightarrow> flt" where
  "radians degrees = fmul degrees (FNum 0.01745329251994329576923690768489)"

text \<open>
  \<^verbatim>\<open>glm::perspectiveFov\<close> of the glm library, as it is compiled under
  \<^verbatim>\<open>GLM_FORCE_DEPTH_ZERO_TO_ONE\<close> (VHHelper.h) and glm's right-handed default:
  all entries are zero but the five that are assigned.
\<close>

definition perspectiveFov :: "flt \<Rightarrow> flt \<Rightarrow> flt \<Rightarrow> flt \<Rightarrow> flt \<Rightarrow> mat4" where
  "perspectiveFov fov width height zNear zFar =
     (let rad = fov;
          h = fdiv (fcos (fmul (FNum 0.5) rad)) (fsin (fmul (FNum 0.5) rad));
          w = fdiv (fmul h height) width
      in Mat4 (Vec4 w (FNum 0) (FNum 0) (FNum 0))
              (Vec4 (FNum 0) h (FNum 0) (FNum 0))
              (Vec4 (FNum 0) (FNum 0) (fdiv zFar (fsub zNear zFar)) (fneg (FNum 1)))
              (Vec4 (FNum 0) (FNum 0) (fdiv (fneg (fmul zFar zNear)) (fsub zFar zNear)) (FNum 0)))"

text \<open>
  \<^verbatim>\<open>VECameraProjective::getProjectionMatrix(width, height)\<close> stores the aspect ratio
  and flips three entries of the glm matrix; the result is the matrix and the camera.
\<close>

definition getProjectionMatrix_wh :: "camera \<Rightarrow> flt \<Rightarrow> flt \<Rightarrow> mat4 \<times> camera" where
  "getProjectionMatrix_wh this width height =
     (let this1 = this\<lparr>m_aspectRatio := fdiv width height\<rparr>;
          pm = perspectiveFov (radians (m_fov this1)) width height (m_nearPlane this1) (m_farPlane this1);
          c1 = col1 pm;
          c2 = col2 pm;
          c1' = Vec4 (v4x c1) (fmul (v4y c1) (FNum (- 1))) (v4z c1) (v4w c1);
          c2' = Vec4 (v4x c2) (v4y c2) (fmul (v4z c2) (FNum (- 1))) (fmul (v4w c2) (FNum (- 1)))
      in (Mat4 (col0 pm) c1' c2' (col3 pm), this1))"

definition getProjectionMatrix :: "camera \<Rightarrow> mat4 \<times> camera" where
  "getProjectionMatrix this = getProjectionMatrix_wh this (m_aspectRatio this) (FNum 1)"

text \<open>Perspective division of a clip-space point: the normalized device depth.\<close>

definition ndc_depth :: "vec4 \<Rightarrow> flt" where
  "ndc_depth clip = fdiv (v4z clip) (v4w clip)"

text \<open>
  \<^verbatim>\<open>getFrustumPoints\<close> appends the eight corners to the vector it is given and then
  moves the entries 0 to 7 of that vector to the sub-range from \<open>z0\<close> to \<open>z1\<close>.
\<close>

function frustum_interpolate :: "vec4 list \<Rightarrow> flt \<Rightarrow> flt \<Rightarrow> nat \<Rightarrow> vec4 list" where
  "frustum_interpolate points z0 z1 i =
     (if i < 4 then
        (let diff = vsub4 (points ! (i + 4)) (points ! i);
             points1 = points[i + 4 := vadd4 (points ! i) (vscale4 z1 diff)];
             points2 = points1[i := vadd4 (points1 ! i) (vscale4 z0 diff)]
         in frustum_interpolate points2 z0 z1 (i + 1))
      else points)"
  by pat_completeness auto
termination
  by (relation "measure (\<lambda>(points, z0, z1, i). 4 - i)") auto

definition frustum_corners :: "camera \<Rightarrow> mat4 \<Rightarrow> vec4 list" where
  "frustum_corners this W =
     (case cam_class this of
        VECameraProjective \<Rightarrow>
          (let halfh = ftan (fdiv (fmul (fdiv (m_fov this) (FNum 2)) (FNum pi)) (FNum 180));
               halfw = fmul halfh (m_aspectRatio this);
               n = m_nearPlane this;
               f = m_farPlane this
           in [mat_vec W (Vec4 (fmul (fneg n) halfw) (fmul (fneg n) halfh) n (FNum 1)),
               mat_vec W (Vec4 (fmul n halfw) (fmul (fneg n) halfh) n (FNum 1)),
               mat_vec W (Vec4 (fmul (fneg n) halfw) (fmul n halfh) n (FNum 1)),
               mat_vec W (Vec4 (fmul n halfw) (fmul n halfh) n (FNum 1)),
               mat_vec W (Vec4 (fmul (fneg f) halfw) (fmul (fneg f) halfh) f (FNum 1)),
               mat_vec W (Vec4 (fmul f halfw) (fmul (fneg f) halfh) f (FNum 1)),
               mat_vec W (Vec4 (fmul (fneg f) halfw) (fmul f halfh) f (FNum 1)),
               mat_vec W (Vec4 (fmul f halfw) (fmul f halfh) f (FNum 1))])
      | VECameraOrtho \<Rightarrow>
          (let halfh = fdiv (m_height this) (FNum 2);
               halfw = fdiv (m_width this) (FNum 2);
               n = m_nearPlane this;
               f = m_farPlane this
           in [mat_vec W (Vec4 (fneg halfw) (fneg halfh) n (FNum 1)),
               mat_vec W (Vec4 halfw (fneg halfh) n (FNum 1)),
               mat_vec W (Vec4 (fneg halfw) halfh n (FNum 1)),
               mat_vec W (Vec4 halfw halfh n (FNum 1)),
               mat_vec W (Vec4 (fneg halfw) (fneg halfh) f (FNum 1)),
               mat_vec W (Vec4 halfw (fneg halfh) f (FNum 1)),
               mat_vec W (Vec4 (fneg halfw) halfh f (FNum 1)),
               mat_vec W (Vec4 halfw halfh f (FNum 1))]))"

definition getFrustumPoints :: "store \<Rightarrow> camera \<Rightarrow> vec4 list \<Rightarrow> flt \<Rightarrow> flt \<Rightarrow> vec4 list option" where
  "getFrustumPoints s this points z0 z1 =
     (case worldTransformOf s this of
        None \<Rightarrow> None
      | Some W \<Rightarrow> Some (frustum_interpolate (points @ frustum_corners this W) z0 z1 0))"


section \<open>Lights and their shadow cameras\<close>

datatype light_class = VEDirectionalLight | VEPointLight | VESpotLight

text \<open>
  A light owns its shadow cameras: the list holds the camera objects themselves.
  The colours and the uniform block of a light are not modelled.
\<close>

record light = node +
  light_class :: light_class
  m_param :: vec4
  m_shadowCameras :: "camera list"

text \<open>The loop \<^verbatim>\<open>for (i = 0; i < n; i++) m_shadowCameras.push_back(new ...)\<close>.\<close>

fun push_back_n :: "nat \<Rightarrow> 'a \<Rightarrow> 'a list \<Rightarrow> 'a list" where
  "push_back_n 0 c xs = xs"
| "push_back_n (Suc n) c xs = push_back_n n c (xs @ [c])"

text \<open>
  The shadow cameras are built with the one-argument constructors, whose default
  arguments and default member values are declared in VEEntity.h, which is not among
  the sources: \<open>d\<close> carries these values.  A shadow camera has no parent.
\<close>

definition VECameraOrtho_new :: "camera \<Rightarrow> camera" where
  "VECameraOrtho_new d = d\<lparr>m_parent := None, m_children := [], cam_class := VECameraOrtho\<rparr>"

definition VECameraProjective_new :: "camera \<Rightarrow> camera" where
  "VECameraProjective_new d = d\<lparr>m_parent := None, m_children := [], cam_class := VECameraProjective\<rparr>"

definition VELight_ctor :: "light_class \<Rightarrow> mat4 \<Rightarrow> nat option \<Rightarrow> vec4 \<Rightarrow> light" where
  "VELight_ctor cls transf parent param =
     \<lparr>m_transform = transf, m_parent = parent, m_children = [],
      light_class = cls, m_param = param, m_shadowCameras = []\<rparr>"

definition VEDirectionalLight_ctor :: "mat4 \<Rightarrow> nat option \<Rightarrow> vec4 \<Rightarrow> camera \<Rightarrow> light" where
  "VEDirectionalLight_ctor transf parent param d =
     (let this = VELight_ctor VEDirectionalLight transf parent param
      in this\<lparr>m_shadowCameras := push_back_n 4 (VECameraOrtho_new d) (m_shadowCameras this)\<rparr>)"

definition VEPointLight_ctor :: "mat4 \<Rightarrow> nat option \<Rightarrow> vec4 \<Rightarrow> camera \<Rightarrow> light" where
  "VEPointLight_ctor transf parent param d =
     (let this = VELight_ctor VEPointLight transf parent param
      in this\<lparr>m_shadowCameras := push_back_n 6 (VECameraProjective_new d) (m_shadowCameras this)\<rparr>)"

text \<open>The boundary list of \<^verbatim>\<open>VEDirectionalLight::updateShadowCameras\<close>.\<close>

definition limits :: "flt list" where
  "limits = [FNum 0, FNum 0.05, FNum 0.15, FNum 0.50, FNum 1]"

text \<open>
  The loop of \<^verbatim>\<open>VEDirectionalLight::updateShadowCameras\<close> over the shadow cameras.
  Reading \<^verbatim>\<open>limits[i+1]\<close> beyond the list has no defined result (\<open>None\<close>), as has a
  world transform that does not return.
\<close>

function VEDirectionalLight_loop ::
  "store \<Rightarrow> light \<Rightarrow> camera \<Rightarrow> camera list \<Rightarrow> nat \<Rightarrow> camera list option" where
  "VEDirectionalLight_loop s this pCamera cams i =
     (if i < length cams then
        (if i + 1 < length limits then
           (case getFrustumPoints s pCamera [] (limits ! i) (limits ! (i + 1)) of
              None \<Rightarrow> None
            | Some pointsW \<Rightarrow>
               (case worldTransformOf s this of
                  None \<Rightarrow> None
                | Some W \<Rightarrow>
                   (case getOBB W pointsW of
                      None \<Rightarrow> None
                    | Some (center, width, height, depth) \<Rightarrow>
                       (let c1 = (cams ! i)\<lparr>m_width := width, m_height := height, m_farPlane := depth\<rparr>;
                            c2 = c1\<lparr>m_farPlane := fmul (m_farPlane c1) (FNum 5)\<rparr>;
                            c3 = setTransform c2 W;
                            c4 = setPosition c3
                                   (vsub3 center
                                      (vscale3 (fmul (m_farPlane c3) (FNum 0.9))
                                               (Vec3 (v4x (col2 W)) (v4y (col2 W)) (v4z (col2 W)))));
                            c5 = c4\<lparr>m_nearPlaneFraction := limits ! i,
                                    m_farPlaneFraction := limits ! (i + 1)\<rparr>
                        in VEDirectionalLight_loop s this pCamera (cams[i := c5]) (i + 1)))))
         else None)
      else Some cams)"
  by pat_completeness auto
termination
  by (relation "measure (\<lambda>(s, this, pCamera, cams, i). length cams - i)") auto

definition VEDirectionalLight_updateShadowCameras :: "store \<Rightarrow> light \<Rightarrow> camera \<Rightarrow> light option" where
  "VEDirectionalLight_updateShadowCameras s this pCamera =
     map_option (\<lambda>cams. this\<lparr>m_shadowCameras := cams\<rparr>)
       (VEDirectionalLight_loop s this pCamera (m_shadowCameras this) 0)"

text \<open>The two tables of \<^verbatim>\<open>VEPointLight::updateShadowCameras\<close>.\<close>

definition point_zaxis :: "vec3 list" where
  "point_zaxis = [vec3_of 1 0 0, vec3_of (- 1) 0 0, vec3_of 0 1 0,
                  vec3_of 0 (- 1) 0, vec3_of 0 0 1, vec3_of 0 0 (- 1)]"

definition point_up :: "vec3 list" where
  "point_up = [vec3_of 0 1 0, vec3_of 0 1 0, vec3_of 0 0 (- 1),
               vec3_of 0 0 1, vec3_of 0 1 0, vec3_of 0 1 0]"

function VEPointLight_loop :: "flt \<Rightarrow> flt \<Rightarrow> vec3 \<Rightarrow> camera list \<Rightarrow> nat \<Rightarrow> camera list option" where
  "VEPointLight_loop lnear llength pos cams i =
     (if i < length cams then
        (if i < length point_zaxis \<and> i < length point_up then
           (let c1 = (cams ! i)\<lparr>m_aspectRatio := FNum 1,
                                m_fov := FNum 91,
                                m_nearPlane := lnear,
                                m_farPlane := fadd lnear llength,
                                m_nearPlaneFraction := FNum 0,
                                m_farPlaneFraction := FNum 1\<rparr>;
                c2 = lookAt c1 pos (vadd3 pos (point_zaxis ! i)) (point_up ! i)
            in VEPointLight_loop lnear llength pos (cams[i := c2]) (i + 1))
         else None)
      else Some cams)"
  by pat_completeness auto
termination
  by (relation "measure (\<lambda>(lnear, llength, pos, cams, i). length cams - i)") auto

definition VEPointLight_updateShadowCameras :: "store \<Rightarrow> light \<Rightarrow> camera \<Rightarrow> light option" where
  "VEPointLight_updateShadowCameras s this pCamera =
     (let lnear = FNum 0.1;
          llength = v4x (m_param this)
      in case worldTransformOf s this of
           None \<Rightarrow> None
         | Some W \<Rightarrow>
            (let pos4 = col3 W;
                 pos = Vec3 (v4x pos4) (v4y pos4) (v4z pos4)
             in map_option (\<lambda>cams. this\<lparr>m_shadowCameras := cams\<rparr>)
                  (VEPointLight_loop lnear llength pos (m_shadowCameras this) 0)))"


section \<open>Meshes\<close>

text \<open>
  Of a vertex only the position enters the bounding sphere.  Both constructors of
  \<^verbatim>\<open>VEMesh\<close> run the same loop over the positions and take the square root at the
  end; the creation of the GPU buffers is not modelled.
\<close>

record vhVertex =
  pos :: vec3

record VEMesh =
  m_vertexCount :: nat
  m_boundingSphereRadius :: flt
  m_boundingSphereCenter :: vec3

fun VEMesh_loop :: "vhVertex list \<Rightarrow> flt \<Rightarrow> flt" where
  "VEMesh_loop [] r = r"
| "VEMesh_loop (v # vertices) r =
     VEMesh_loop vertices
       (fmax (fmax (fmax (fmul (v3x (pos v)) (v3x (pos v))) (fmul (v3y (pos v)) (v3y (pos v))))
                   (fmul (v3z (pos v)) (v3z (pos v))))
             r)"

definition VEMesh_ctor :: "vhVertex list \<Rightarrow> VEMesh" where
  "VEMesh_ctor vertices =
     \<lparr>m_vertexCount = length vertices,
      m_boundingSphereRadius = fsqrt (VEMesh_loop vertices (FNum 0)),
      m_boundingSphereCenter = vec3_of 0 0 0\<rparr>"

text \<open>The constructor from an Assimp mesh copies each position into a vertex first.\<close>

definition VEMesh_ctor_aiMesh :: "vec3 list \<Rightarrow> VEMesh" where
  "VEMesh_ctor_aiMesh mVertices =
     VEMesh_ctor (map (\<lambda>p. \<lparr>pos = Vec3 (v3x p) (v3y p) (v3z p)\<rparr>) mVertices)"

text \<open>The Euclidean distance of a vertex from the origin of local space.\<close>

definition vertex_distance :: "vhVertex \<Rightarrow> flt" where
  "vertex_distance v = fsqrt (dot3 (pos v) (pos v))"


section \<open>The scene manager's list of active lights\<close>

text \<open>
  \<^verbatim>\<open>m_lights\<close> is a list of pointers to lights; \<open>light_objects\<close> gives the light
  at each address.
\<close>

record sceneManager =
  m_lights :: "nat list"
  light_objects :: "nat \<Rightarrow> light"

definition getLights :: "sceneManager \<Rightarrow> nat list" where
  "getLights sm = m_lights sm"

definition switchOnLight :: "sceneManager \<Rightarrow> nat \<Rightarrow> sceneManager" where
  "switchOnLight sm light = sm\<lparr>m_lights := m_lights sm @ [light]\<rparr>"


section \<open>The forward renderer\<close>

text \<open>
  A command buffer is the list of the calls that were recorded into it.  The render
  passes and framebuffers are named as the members of the renderer that hold them.
  Extents, semaphores, fences and the timing averages are not modelled.
\<close>

datatype renderPass = m_renderPassShadow | m_renderPassClear | m_renderPassLoad

datatype framebuffer = m_shadowFramebuffers nat nat | m_swapChainFramebuffers nat

datatype clearValue = ClearColor real real real real | ClearDepthStencil real nat

text \<open>
  The class of a sub-renderer; the enumeration is declared in VESubrender.h, which is
  not among the sources, and only two of its values are named in them.
\<close>

datatype veSubrenderClass =
  VE_SUBRENDERER_CLASS_BACKGROUND | VE_SUBRENDERER_CLASS_OBJECT | VE_SUBRENDERER_CLASS_OTHER nat

record subrender =
  sub_address :: nat
  sub_class :: veSubrenderClass

datatype cmd =
    CmdBeginRenderPass renderPass framebuffer "clearValue list"
  | CmdShadowDraw nat nat camera nat
  | CmdDraw nat nat nat nat
  | CmdEndRenderPass

text \<open>
  \<open>CmdShadowDraw imageIndex i camera light\<close> is the call of the shadow sub-renderer's
  \<^verbatim>\<open>draw\<close>, and \<open>CmdDraw sub imageIndex i light\<close> the call of \<^verbatim>\<open>draw\<close> of the
  sub-renderer at address \<open>sub\<close>.
\<close>

definition clearValuesShadow :: "clearValue list" where
  "clearValuesShadow = [ClearDepthStencil 1 0]"

definition clearValuesLight :: "clearValue list" where
  "clearValuesLight = [ClearColor 0 0 0 1, ClearDepthStencil 1 0]"

text \<open>The inner loop of \<^verbatim>\<open>recordCmdBuffers\<close>: one render pass for each shadow camera.\<close>

function shadow_pass_loop :: "nat \<Rightarrow> nat \<Rightarrow> camera list \<Rightarrow> nat \<Rightarrow> cmd list \<Rightarrow> cmd list" where
  "shadow_pass_loop imageIndex pLight cams i buf =
     (if i < length cams then
        shadow_pass_loop imageIndex pLight cams (i + 1)
          (buf @ [CmdBeginRenderPass m_renderPassShadow (m_shadowFramebuffers imageIndex i) clearValuesShadow,
                  CmdShadowDraw imageIndex i (cams ! i) pLight,
                  CmdEndRenderPass])
      else buf)"
  by pat_completeness auto
termination
  by (relation "measure (\<lambda>(imageIndex, pLight, cams, i, buf). length cams - i)") auto

text \<open>
  The loop over the sub-renderers inside the light pass.  The call of
  \<^verbatim>\<open>prepareDraw\<close> before each \<^verbatim>\<open>draw\<close> records nothing and is left out.
\<close>

fun subrender_loop :: "nat \<Rightarrow> nat \<Rightarrow> nat \<Rightarrow> subrender list \<Rightarrow> cmd list \<Rightarrow> cmd list" where
  "subrender_loop imageIndex i pLight [] buf = buf"
| "subrender_loop imageIndex i pLight (pSub # subs) buf =
     subrender_loop imageIndex i pLight subs
       (if i = 0 \<or> sub_class pSub = VE_SUBRENDERER_CLASS_OBJECT
        then buf @ [CmdDraw (sub_address pSub) imageIndex i pLight]
        else buf)"

text \<open>
  The loop over the active lights.  \<open>cvLight\<close> is the vector \<^verbatim>\<open>clearValuesLight\<close>,
  which the source empties at the end of each round.
\<close>

function lights_loop ::
  "(nat \<Rightarrow> light) \<Rightarrow> subrender list \<Rightarrow> nat \<Rightarrow> nat list \<Rightarrow> nat \<Rightarrow> clearValue list \<Rightarrow> cmd list \<Rightarrow> cmd list" where
  "lights_loop objs subs imageIndex lights i cvLight buf =
     (if i < length lights then
        (let pLight = lights ! i;
             buf1 = shadow_pass_loop imageIndex pLight (m_shadowCameras (objs pLight)) 0 buf;
             buf2 = buf1 @ [CmdBeginRenderPass (if i = 0 then m_renderPassClear else m_renderPassLoad)
                              (m_swapChainFramebuffers imageIndex) cvLight];
             buf3 = subrender_loop imageIndex i pLight subs buf2;
             buf4 = buf3 @ [CmdEndRenderPass]
         in lights_loop objs subs imageIndex lights (i + 1) [] buf4)
      else buf)"
  by pat_completeness auto
termination
  by (relation "measure (\<lambda>(objs, subs, imageIndex, lights, i, cvLight, buf). length lights - i)") auto

text \<open>
  The calls that the frame cycle makes on the device and the engine, in order.
\<close>

datatype call =
    CallWaitForFences nat
  | CallAcquireNextImage nat
  | CallRecreateSwapchain
  | CallFatalError string
  | CallRecordCmdBuffers nat
  | CallSubmitCommandBuffer nat nat
  | CallTransitionImageLayout nat
  | CallPresent nat

text \<open>
  The renderer: the command buffer of each swap chain image (\<^verbatim>\<open>VK_NULL_HANDLE\<close> is
  \<open>None\<close>), the index of the acquired image, the index of the frame in flight, the
  resize flag, the sub-renderers, and the calls made so far.
\<close>

record renderer =
  m_commandBuffers :: "nat \<Rightarrow> cmd list option"
  imageIndex :: nat
  m_currentFrame :: nat
  m_framebufferResized :: bool
  m_subrenderers :: "subrender list"
  calls :: "call list"

definition MAX_FRAMES_IN_FLIGHT :: nat where
  "MAX_FRAMES_IN_FLIGHT = 2"

type_synonym VkResult = int

text \<open>The values of the Vulkan result codes that the renderer tests.\<close>

definition VK_SUCCESS :: VkResult where
  "VK_SUCCESS = 0"

definition VK_SUBOPTIMAL_KHR :: VkResult where
  "VK_SUBOPTIMAL_KHR = 1000001003"

definition VK_ERROR_OUT_OF_DATE_KHR :: VkResult where
  "VK_ERROR_OUT_OF_DATE_KHR = - 1000001004"

definition recordCmdBuffers :: "renderer \<Rightarrow> sceneManager \<Rightarrow> renderer" where
  "recordCmdBuffers this sm =
     this\<lparr>m_commandBuffers := (m_commandBuffers this)(imageIndex this :=
              Some (lights_loop (light_objects sm) (m_subrenderers this) (imageIndex this)
                      (getLights sm) 0 clearValuesLight [])),
           calls := calls this @ [CallRecordCmdBuffers (imageIndex this)]\<rparr>"

text \<open>
  \<^verbatim>\<open>deleteCmdBuffers\<close> resets every command buffer; \<^verbatim>\<open>recreateSwapchain\<close> ends with it.
  The rebuilding of the swap chain resources is the single call in the record.
\<close>

definition deleteCmdBuffers :: "renderer \<Rightarrow> renderer" where
  "deleteCmdBuffers this = this\<lparr>m_commandBuffers := (\<lambda>i. None)\<rparr>"

definition recreateSwapchain :: "renderer \<Rightarrow> renderer" where
  "recreateSwapchain this = deleteCmdBuffers (this\<lparr>calls := calls this @ [CallRecreateSwapchain]\<rparr>)"

text \<open>
  Modelled from the spec: \<^verbatim>\<open>VEEngine::fatalError\<close> is declared in VEEngine.h
  (``Show an error message and close down the engine'') and its body is not among the
  sources.  It is the handler of the fatal category of the error taxonomy.  The call is
  recorded; control then returns to the caller, as in main.cpp, where the call is
  followed by another statement.
\<close>

definition fatalError :: "renderer \<Rightarrow> string \<Rightarrow> renderer" where
  "fatalError this message = this\<lparr>calls := calls this @ [CallFatalError message]\<rparr>"

text \<open>
  \<^verbatim>\<open>drawFrame\<close>: \<open>result\<close> and \<open>acquired\<close> are what \<^verbatim>\<open>vkAcquireNextImageKHR\<close>
  returns and stores into \<^verbatim>\<open>imageIndex\<close>.
\<close>

definition drawFrame :: "renderer \<Rightarrow> sceneManager \<Rightarrow> VkResult \<Rightarrow> nat \<Rightarrow> renderer" where
  "drawFrame this sm result acquired =
     (let r1 = this\<lparr>imageIndex := acquired,
                    calls := calls this @ [CallWaitForFences (m_currentFrame this),
                                           CallAcquireNextImage (m_currentFrame this)]\<rparr>
      in if result = VK_ERROR_OUT_OF_DATE_KHR then recreateSwapchain r1
         else
           (let r2 = (if result \<noteq> VK_SUCCESS \<and> result \<noteq> VK_SUBOPTIMAL_KHR
                      then fatalError r1 ''Failed to acquire swap chain image!''
                      else r1);
                r3 = (if m_commandBuffers r2 (imageIndex r2) = None
                      then recordCmdBuffers r2 sm
                      else r2)
            in r3\<lparr>calls := calls r3 @ [CallSubmitCommandBuffer (imageIndex r3) (m_currentFrame r3)]\<rparr>))"

text \<open>\<^verbatim>\<open>presentFrame\<close>: \<open>result\<close> is what \<^verbatim>\<open>vhRenderPresentResult\<close> returns.\<close>

definition presentFrame :: "renderer \<Rightarrow> VkResult \<Rightarrow> renderer" where
  "presentFrame this result =
     (let r1 = this\<lparr>calls := calls this @ [CallTransitionImageLayout (imageIndex this),
                                           CallPresent (imageIndex this)]\<rparr>;
          r2 = (if result = VK_ERROR_OUT_OF_DATE_KHR \<or> result = VK_SUBOPTIMAL_KHR
                   \<or> m_framebufferResized r1
                then recreateSwapchain (r1\<lparr>m_framebufferResized := False\<rparr>)
                else if result \<noteq> VK_SUCCESS
                then fatalError r1 ''failed to present swap chain image!''
                else r1)
      in r2\<lparr>m_currentFrame := (m_currentFrame r2 + 1) mod MAX_FRAMES_IN_FLIGHT\<rparr>)"

text \<open>
  The commands of one round of the light loop, as the description of the scheduler
  has them: the shadow passes of the light, one for each of its shadow cameras, and
  then its light pass.
\<close>

definition shadow_pass :: "nat \<Rightarrow> nat \<Rightarrow> camera list \<Rightarrow> nat \<Rightarrow> cmd list" where
  "shadow_pass img pLight cams j =
     [CmdBeginRenderPass m_renderPassShadow (m_shadowFramebuffers img j) clearValuesShadow,
      CmdShadowDraw img j (cams ! j) pLight,
      CmdEndRenderPass]"

definition light_pass :: "subrender list \<Rightarrow> nat \<Rightarrow> nat \<Rightarrow> nat \<Rightarrow> cmd list" where
  "light_pass subs img i pLight =
     CmdBeginRenderPass (if i = 0 then m_renderPassClear else m_renderPassLoad)
        (m_swapChainFramebuffers img) (if i = 0 then clearValuesLight else [])
     # map (\<lambda>pSub. CmdDraw (sub_address pSub) img i pLight)
           (filter (\<lambda>pSub. i = 0 \<or> sub_class pSub = VE_SUBRENDERER_CLASS_OBJECT) subs)
     @ [CmdEndRenderPass]"

definition light_round :: "(nat \<Rightarrow> light) \<Rightarrow> subrender list \<Rightarrow> nat \<Rightarrow> nat \<Rightarrow> nat \<Rightarrow> cmd list" where
  "light_round objs subs img i pLight =
     concat (map (shadow_pass img pLight (m_shadowCameras (objs pLight)))
                 [0 ..< length (m_shadowCameras (objs pLight))])
     @ light_pass subs img i pLight"

definition frame_commands :: "(nat \<Rightarrow> light) \<Rightarrow> subrender list \<Rightarrow> nat \<Rightarrow> nat list \<Rightarrow> cmd list" where
  "frame_commands objs subs img lights =
     concat (map (\<lambda>i. light_round objs subs img i (lights ! i)) [0 ..< length lights])"

text \<open>The store that the first step of \<^verbatim>\<open>addChild\<close> leaves: the child is taken out of
  the child list of the node that its parent pointer names.\<close>

definition detach :: "store \<Rightarrow> nat \<Rightarrow> store" where
  "detach s n = (case m_parent (s n) of Some p \<Rightarrow> removeChild s p n | None \<Rightarrow> s)"


section \<open>Example scenes\<close>

definition translation :: "real \<Rightarrow> real \<Rightarrow> real \<Rightarrow> mat4" where
  "translation x y z = Mat4 (vec4_of 1 0 0 0) (vec4_of 0 1 0 0) (vec4_of 0 0 1 0) (vec4_of x y z 1)"

text \<open>A tree of four nodes: node 1 is the root, 2 and 3 are its children, 4 is a child of 2.\<close>

definition ex_store :: store where
  "ex_store = (\<lambda>a. \<lparr>m_transform = mat4_identity, m_parent = None, m_children = []\<rparr>)
     (1 := \<lparr>m_transform = translation 1 0 0, m_parent = None, m_children = [2, 3]\<rparr>,
      2 := \<lparr>m_transform = translation 0 2 0, m_parent = Some 1, m_children = [4]\<rparr>,
      3 := \<lparr>m_transform = translation 0 0 3, m_parent = Some 1, m_children = []\<rparr>,
      4 := \<lparr>m_transform = translation 5 5 5, m_parent = Some 2, m_children = []\<rparr>)"


text \<open>A renderer with no recorded command buffer, and a scene with one active light.\<close>

definition ex_renderer :: renderer where
  "ex_renderer = \<lparr>m_commandBuffers = (\<lambda>i. None), imageIndex = 0, m_currentFrame = 1,
                   m_framebufferResized = False,
                   m_subrenderers = [\<lparr>sub_address = 7, sub_class = VE_SUBRENDERER_CLASS_OBJECT\<rparr>],
                   calls = []\<rparr>"

definition ex_camera :: camera where
  "ex_camera = \<lparr>m_transform = mat4_identity, m_parent = None, m_children = [],
                 cam_class = VECameraProjective,
                 m_nearPlane = FNum 1, m_farPlane = FNum 100,
                 m_nearPlaneFraction = FNum 0, m_farPlaneFraction = FNum 1,
                 m_aspectRatio = FNum 1, m_fov = FNum 45,
                 m_width = FNum 1, m_height = FNum 1\<rparr>"

definition ex_sceneManager :: sceneManager where
  "ex_sceneManager =
     \<lparr>m_lights = [5],
      light_objects = (\<lambda>a. VEDirectionalLight_ctor mat4_identity None (vec4_of 0 0 0 0) ex_camera)\<rparr>"


text \<open>A directional light and a point light, both with node 2 of the example tree as parent.\<close>

definition ex_directional :: light where
  "ex_directional = VEDirectionalLight_ctor (translation 0 10 0) (Some 2) (vec4_of 0 0 0 0) ex_camera"

definition ex_point :: light where
  "ex_point = VEPointLight_ctor (translation 0 10 0) (Some 2) (vec4_of 100 0 0 0) ex_camera"


section \<open>Properties\<close>

text \<open>The equations of the loops are unfolded by hand, one step at a time.\<close>

declare removeChild_loop.simps [simp del]
declare frustum_interpolate.simps [simp del]
declare VEDirectionalLight_loop.simps [simp del]
declare VEPointLight_loop.simps [simp del]
declare shadow_pass_loop.simps [simp del]
declare lights_loop.simps [simp del]

subsection \<open>World transforms\<close>

lemma chain_world: "chain s n ps \<Longrightarrow> getWorldTransform s n = Some (worldFold s n ps)"
proof (induction ps arbitrary: n)
  case Nil
  then show ?case by (simp add: getWorldTransform.simps)
next
  case (Cons p ps)
  then have "getWorldTransform s p = Some (worldFold s p ps)" by simp
  with Cons.prems show ?case
    by (subst getWorldTransform.simps) simp
qed

lemma chain_setTransform:
  "chain (s(m := setTransform (s m) t)) n ps = chain s n ps"
  by (induction ps arbitrary: n) (simp_all add: setTransform_def)

text \<open>
  C1: for a node with a parent, the world transform is the world transform of the
  parent multiplied by the local transform of the node; for a node without parent it is
  the local transform.  Along a parent chain that ends, the call returns the fold of the
  local transforms up the chain, and it does so from the current store after any
  \<^verbatim>\<open>setTransform\<close>: nothing is cached.
\<close>

theorem getWorldTransform_parent_chain:
  assumes "chain s n ps"
  shows "getWorldTransform s n = Some (worldFold s n ps) \<and>
         (case m_parent (s n) of
            None \<Rightarrow> getWorldTransform s n = Some (m_transform (s n))
          | Some p \<Rightarrow> \<exists>wp. getWorldTransform s p = Some wp \<and>
                       getWorldTransform s n = Some (mat_mul wp (m_transform (s n)))) \<and>
         (\<forall>m t. getWorldTransform (s(m := setTransform (s m) t)) n =
                  Some (worldFold (s(m := setTransform (s m) t)) n ps))"
proof -
  have a: "getWorldTransform s n = Some (worldFold s n ps)"
    using assms by (rule chain_world)
  have b: "case m_parent (s n) of
            None \<Rightarrow> getWorldTransform s n = Some (m_transform (s n))
          | Some p \<Rightarrow> \<exists>wp. getWorldTransform s p = Some wp \<and>
                       getWorldTransform s n = Some (mat_mul wp (m_transform (s n)))"
  proof (cases ps)
    case Nil
    with assms a show ?thesis by simp
  next
    case (Cons p qs)
    with assms have p: "m_parent (s n) = Some p" and c: "chain s p qs" by simp_all
    from c have "getWorldTransform s p = Some (worldFold s p qs)" by (rule chain_world)
    with a p Cons show ?thesis by simp
  qed
  have c: "\<forall>m t. getWorldTransform (s(m := setTransform (s m) t)) n =
                  Some (worldFold (s(m := setTransform (s m) t)) n ps)"
  proof (intro allI)
    fix m t
    from assms have "chain (s(m := setTransform (s m) t)) n ps" by (simp only: chain_setTransform)
    then show "getWorldTransform (s(m := setTransform (s m) t)) n =
                  Some (worldFold (s(m := setTransform (s m) t)) n ps)" by (rule chain_world)
  qed
  show ?thesis by (rule conjI[OF a conjI[OF b c]])
qed

theorem getWorldTransform_parent_chain_witness:
  "chain ex_store 4 [2, 1] \<and>
   getWorldTransform ex_store 4 =
     Some (mat_mul (mat_mul (translation 1 0 0) (translation 0 2 0)) (translation 5 5 5)) \<and>
   getWorldTransform ex_store 2 = Some (mat_mul (translation 1 0 0) (translation 0 2 0))"
proof -
  have c: "chain ex_store 4 [2, 1]" by (simp add: ex_store_def)
  have c2: "chain ex_store 2 [1]" by (simp add: ex_store_def)
  from getWorldTransform_parent_chain[OF c]
  have "getWorldTransform ex_store 4 = Some (worldFold ex_store 4 [2, 1])" by (rule conjunct1)
  moreover from getWorldTransform_parent_chain[OF c2]
  have "getWorldTransform ex_store 2 = Some (worldFold ex_store 2 [1])" by (rule conjunct1)
  ultimately show ?thesis using c by (simp add: ex_store_def)
qed

subsection \<open>Parent and child links\<close>

lemma swap_remove:
  assumes "distinct cs" "i < length cs"
  shows "set (butlast (cs[i := last cs])) = set cs - {cs ! i}"
    and "distinct (butlast (cs[i := last cs]))"
proof -
  from assms have ne: "cs \<noteq> []" by auto
  then obtain xs l where cs: "cs = xs @ [l]" by (metis append_butlast_last_id)
  from assms cs have d: "distinct xs" "l \<notin> set xs" by auto
  show "set (butlast (cs[i := last cs])) = set cs - {cs ! i}"
  proof (cases "i < length xs")
    case True
    then have "butlast (cs[i := last cs]) = xs[i := l]" using cs by (simp add: list_update_append)
    moreover have "set (xs[i := l]) = insert l (set xs - {xs ! i})"
      using d True by (simp add: set_update_distinct)
    moreover have "cs ! i = xs ! i" using True cs by (simp add: nth_append)
    moreover have "xs ! i \<noteq> l" using True d by auto
    ultimately show ?thesis using cs d by auto
  next
    case False
    with assms cs have "i = length xs" by simp
    then show ?thesis using cs d by simp
  qed
  show "distinct (butlast (cs[i := last cs]))"
  proof (cases "i < length xs")
    case True
    then have "butlast (cs[i := last cs]) = xs[i := l]" using cs by (simp add: list_update_append)
    then show ?thesis using d True by (simp add: distinct_list_update)
  next
    case False
    with assms cs have "i = length xs" by simp
    then show ?thesis using cs d by simp
  qed
qed

lemma removeChild_loop_props:
  "distinct cs \<Longrightarrow>
     distinct (removeChild_loop cs e i) \<and> set (removeChild_loop cs e i) \<subseteq> set cs \<and>
     (e \<notin> set (take i cs) \<longrightarrow> e \<notin> set (removeChild_loop cs e i))"
proof (induction cs e i rule: removeChild_loop.induct)
  case (1 children pEntity i)
  show ?case
  proof (cases "i < length children")
    case False
    then have "removeChild_loop children pEntity i = children"
      by (subst removeChild_loop.simps) simp
    then show ?thesis using 1 False by simp
  next
    case True
    show ?thesis
    proof (cases "pEntity = children ! i")
      case e: True
      have "removeChild_loop children pEntity i = butlast (children[i := last children])"
        using True e by (subst removeChild_loop.simps) simp
      then show ?thesis using swap_remove[OF "1.prems" True] e by auto
    next
      case ne: False
      have eq: "removeChild_loop children pEntity i = removeChild_loop children pEntity (i + 1)"
        using True ne by (subst removeChild_loop.simps) simp
      have "take (i + 1) children = take i children @ [children ! i]"
        using True by (simp add: take_Suc_conv_app_nth)
      then show ?thesis using 1 True ne eq by auto
    qed
  qed
qed

lemma removeChild_children:
  "m_children (removeChild s a e p) =
     (if p = a then removeChild_loop (m_children (s a)) e 0 else m_children (s p))"
  by (simp add: removeChild_def)

lemma removeChild_parent: "m_parent (removeChild s a e n) = m_parent (s n)"
  by (simp add: removeChild_def)

lemma removeChild_links_ok:
  assumes "links_ok s"
  shows "links_ok (removeChild s a e)"
proof -
  from assms have d: "distinct (m_children (s a))" by (simp add: links_ok_def)
  note pr = removeChild_loop_props[OF d, of e 0]
  show ?thesis
    unfolding links_ok_def
  proof (intro conjI allI impI)
    fix p show "distinct (m_children (removeChild s a e p))"
      using assms pr by (simp add: removeChild_children links_ok_def)
  next
    fix p n assume "n \<in> set (m_children (removeChild s a e p))"
    then have "n \<in> set (m_children (s p))"
      using pr by (auto simp: removeChild_children split: if_splits)
    then show "m_parent (removeChild s a e n) = Some p"
      using assms by (simp add: removeChild_parent links_ok_def)
  qed
qed

lemma removeChild_gone:
  assumes "links_ok s"
  shows "e \<notin> set (m_children (removeChild s a e a))"
proof -
  from assms have d: "distinct (m_children (s a))" by (simp add: links_ok_def)
  from removeChild_loop_props[OF d, of e 0] show ?thesis
    by (simp add: removeChild_children)
qed

lemma detach_props:
  assumes "links_ok s"
  shows "links_ok (detach s n)" and "n \<notin> set (m_children (detach s n p))"
    and "m_parent (detach s n k) = m_parent (s k)"
proof -
  show "links_ok (detach s n)"
    using assms by (simp add: detach_def removeChild_links_ok split: option.splits)
  show "m_parent (detach s n k) = m_parent (s k)"
    by (simp add: detach_def removeChild_parent split: option.splits)
  show "n \<notin> set (m_children (detach s n p))"
  proof (cases "m_parent (s n)")
    case None
    then show ?thesis using assms by (auto simp: detach_def links_ok_def)
  next
    case (Some a)
    show ?thesis
    proof (cases "p = a")
      case True
      then show ?thesis using Some removeChild_gone[OF assms] by (simp add: detach_def)
    next
      case False
      then show ?thesis using Some assms
        by (auto simp: detach_def removeChild_children links_ok_def)
    qed
  qed
qed

lemma addChild_detach:
  "m_children (addChild s b n p) = (if p = b then m_children (detach s n b) @ [n] else m_children (detach s n p))"
  "m_parent (addChild s b n k) = (if k = n then Some b else m_parent (detach s n k))"
  by (simp_all add: addChild_def detach_def Let_def split: option.splits)

lemma addChild_links_ok:
  assumes "links_ok s"
  shows "links_ok (addChild s b n)"
proof -
  note dp = detach_props[OF assms, of n]
  show ?thesis
    unfolding links_ok_def
  proof (intro conjI allI impI)
    fix p show "distinct (m_children (addChild s b n p))"
      using dp(1) dp(2)[of b] by (simp add: addChild_detach links_ok_def)
  next
    fix p k assume k: "k \<in> set (m_children (addChild s b n p))"
    show "m_parent (addChild s b n k) = Some p"
    proof (cases "k = n")
      case True
      with k dp(2) have "p = b" by (auto simp: addChild_detach split: if_splits)
      then show ?thesis using True by (simp add: addChild_detach)
    next
      case False
      with k have "k \<in> set (m_children (detach s n p))"
        by (auto simp: addChild_detach split: if_splits)
      then have "m_parent (detach s n k) = Some p" using dp(1) by (simp add: links_ok_def)
      then show ?thesis using False by (simp add: addChild_detach)
    qed
  qed
qed

lemma apply_ops_links_ok: "links_ok s \<Longrightarrow> links_ok (apply_ops s ops)"
proof (induction ops arbitrary: s)
  case Nil then show ?case by simp
next
  case (Cons x xs)
  then show ?case by (cases x) (simp_all add: addChild_links_ok removeChild_links_ok)
qed














subsection \<open>Recording the command buffer\<close>

lemma shadow_pass_loop_eq:
  "shadow_pass_loop img l cams i buf = buf @ concat (map (shadow_pass img l cams) [i ..< length cams])"
proof (induction "length cams - i" arbitrary: i buf)
  case 0
  then have "\<not> i < length cams" by simp
  then show ?case by (subst shadow_pass_loop.simps) simp
next
  case (Suc k)
  then have lt: "i < length cams" and k: "k = length cams - (i + 1)" by simp_all
  have "shadow_pass_loop img l cams i buf =
          shadow_pass_loop img l cams (i + 1) (buf @ shadow_pass img l cams i)"
    using lt by (subst shadow_pass_loop.simps) (simp add: shadow_pass_def)
  also have "\<dots> = (buf @ shadow_pass img l cams i) @
                    concat (map (shadow_pass img l cams) [i + 1 ..< length cams])"
    using Suc.hyps(1)[OF k] .
  also have "\<dots> = buf @ concat (map (shadow_pass img l cams) [i ..< length cams])"
    using lt by (simp add: upt_conv_Cons)
  finally show ?case .
qed

lemma subrender_loop_eq:
  "subrender_loop img i l subs buf =
     buf @ map (\<lambda>pSub. CmdDraw (sub_address pSub) img i l)
               (filter (\<lambda>pSub. i = 0 \<or> sub_class pSub = VE_SUBRENDERER_CLASS_OBJECT) subs)"
  by (induction subs arbitrary: buf) simp_all

lemma lights_loop_step:
  assumes "i < length lights" "cv = (if i = 0 then clearValuesLight else [])"
  shows "lights_loop objs subs img lights i cv buf =
           lights_loop objs subs img lights (i + 1) [] (buf @ light_round objs subs img i (lights ! i))"
  using assms
  by (subst lights_loop.simps)
     (simp add: Let_def light_round_def light_pass_def shadow_pass_loop_eq subrender_loop_eq)

lemma lights_loop_eq:
  "cv = (if i = 0 then clearValuesLight else []) \<Longrightarrow>
   lights_loop objs subs img lights i cv buf =
     buf @ concat (map (\<lambda>k. light_round objs subs img k (lights ! k)) [i ..< length lights])"
proof (induction "length lights - i" arbitrary: i cv buf)
  case 0
  then have "\<not> i < length lights" by simp
  then show ?case by (subst lights_loop.simps) simp
next
  case (Suc n)
  then have lt: "i < length lights" and n: "n = length lights - (i + 1)" by simp_all
  have e: "[] = (if i + 1 = 0 then clearValuesLight else [])" by simp
  have "lights_loop objs subs img lights i cv buf =
          lights_loop objs subs img lights (i + 1) [] (buf @ light_round objs subs img i (lights ! i))"
    using lt Suc.prems by (rule lights_loop_step)
  also have "\<dots> = (buf @ light_round objs subs img i (lights ! i)) @
                concat (map (\<lambda>k. light_round objs subs img k (lights ! k)) [i + 1 ..< length lights])"
    using Suc.hyps(1)[OF n e] .
  also have "\<dots> = buf @ concat (map (\<lambda>k. light_round objs subs img k (lights ! k)) [i ..< length lights])"
    using lt by (simp add: upt_conv_Cons)
  finally show ?case .
qed

lemma recorded_buffer:
  "m_commandBuffers (recordCmdBuffers r sm) (imageIndex r) =
     Some (frame_commands (light_objects sm) (m_subrenderers r) (imageIndex r) (getLights sm))"
  by (simp add: recordCmdBuffers_def frame_commands_def lights_loop_eq)

lemma frame_commands_append:
  "frame_commands objs subs img (ls @ [l]) =
     frame_commands objs subs img ls @ light_round objs subs img (length ls) l"
proof -
  have m: "map (\<lambda>i. light_round objs subs img i ((ls @ [l]) ! i)) [0 ..< length ls] =
        map (\<lambda>i. light_round objs subs img i (ls ! i)) [0 ..< length ls]"
    by (rule map_cong) (simp_all add: nth_append)
  show ?thesis by (simp add: frame_commands_def m)
qed

text \<open>
  C4: the command buffer that \<^verbatim>\<open>recordCmdBuffers\<close> records is, for each active light
  in list order, the shadow passes of that light (one render pass on the shadow render
  pass for each shadow camera, with the shadow clear values every time) followed by the
  light pass of that light; the light pass is on the clearing render pass for the light
  at index 0 and on the loading render pass for every later light.
\<close>

theorem recordCmdBuffers_frame_commands:
  "m_commandBuffers (recordCmdBuffers r sm) (imageIndex r) =
     Some (frame_commands (light_objects sm) (m_subrenderers r) (imageIndex r) (getLights sm))"
  by (rule recorded_buffer)

text \<open>
  C10: \<^verbatim>\<open>switchOnLight\<close> appends without a membership test.  Switching the same light
  on twice leaves two more entries of it in the list, so the operation is not idempotent,
  and the recorded command buffer then has two rounds of shadow passes and light pass
  for that light.
\<close>

theorem switchOnLight_twice:
  "m_lights (switchOnLight (switchOnLight sm l) l) = m_lights sm @ [l, l] \<and>
   switchOnLight (switchOnLight sm l) l \<noteq> switchOnLight sm l \<and>
   count_list (m_lights (switchOnLight (switchOnLight sm l) l)) l = count_list (m_lights sm) l + 2 \<and>
   m_commandBuffers (recordCmdBuffers r (switchOnLight (switchOnLight sm l) l)) (imageIndex r) =
     Some (frame_commands (light_objects sm) (m_subrenderers r) (imageIndex r) (m_lights sm)
           @ light_round (light_objects sm) (m_subrenderers r) (imageIndex r) (length (m_lights sm)) l
           @ light_round (light_objects sm) (m_subrenderers r) (imageIndex r) (length (m_lights sm) + 1) l)"
proof -
  have a: "m_lights (switchOnLight (switchOnLight sm l) l) = m_lights sm @ [l, l]"
    by (simp add: switchOnLight_def)
  have b: "switchOnLight (switchOnLight sm l) l \<noteq> switchOnLight sm l"
  proof
    assume "switchOnLight (switchOnLight sm l) l = switchOnLight sm l"
    then have "m_lights (switchOnLight (switchOnLight sm l) l) = m_lights (switchOnLight sm l)"
      by simp
    then show False by (simp add: switchOnLight_def)
  qed
  have c: "count_list (m_lights (switchOnLight (switchOnLight sm l) l)) l = count_list (m_lights sm) l + 2"
    by (simp add: switchOnLight_def)
  have "frame_commands (light_objects sm) (m_subrenderers r) (imageIndex r) ((m_lights sm @ [l]) @ [l]) =
          frame_commands (light_objects sm) (m_subrenderers r) (imageIndex r) (m_lights sm)
           @ light_round (light_objects sm) (m_subrenderers r) (imageIndex r) (length (m_lights sm)) l
           @ light_round (light_objects sm) (m_subrenderers r) (imageIndex r) (length (m_lights sm) + 1) l"
    by (simp only: frame_commands_append) simp
  then have d: "m_commandBuffers (recordCmdBuffers r (switchOnLight (switchOnLight sm l) l)) (imageIndex r) =
     Some (frame_commands (light_objects sm) (m_subrenderers r) (imageIndex r) (m_lights sm)
           @ light_round (light_objects sm) (m_subrenderers r) (imageIndex r) (length (m_lights sm)) l
           @ light_round (light_objects sm) (m_subrenderers r) (imageIndex r) (length (m_lights sm) + 1) l)"
    by (simp add: recorded_buffer getLights_def switchOnLight_def)
  show ?thesis by (rule conjI[OF a conjI[OF b conjI[OF c d]]])
qed

subsection \<open>The frame cycle\<close>

lemma drawFrame_out_of_date:
  "result = VK_ERROR_OUT_OF_DATE_KHR \<Longrightarrow>
   calls (drawFrame r sm result acq) =
     calls r @ [CallWaitForFences (m_currentFrame r), CallAcquireNextImage (m_currentFrame r),
                CallRecreateSwapchain]"
  by (simp add: drawFrame_def recreateSwapchain_def deleteCmdBuffers_def Let_def)

lemma drawFrame_fatal:
  "result \<noteq> VK_ERROR_OUT_OF_DATE_KHR \<Longrightarrow> result \<noteq> VK_SUCCESS \<Longrightarrow> result \<noteq> VK_SUBOPTIMAL_KHR \<Longrightarrow>
   calls (drawFrame r sm result acq) =
     calls r @ [CallWaitForFences (m_currentFrame r), CallAcquireNextImage (m_currentFrame r),
                CallFatalError ''Failed to acquire swap chain image!'']
             @ (if m_commandBuffers r acq = None then [CallRecordCmdBuffers acq] else [])
             @ [CallSubmitCommandBuffer acq (m_currentFrame r)]"
  by (simp add: drawFrame_def fatalError_def recordCmdBuffers_def Let_def)

lemma drawFrame_success:
  "result = VK_SUCCESS \<or> result = VK_SUBOPTIMAL_KHR \<Longrightarrow>
   calls (drawFrame r sm result acq) =
     calls r @ [CallWaitForFences (m_currentFrame r), CallAcquireNextImage (m_currentFrame r)]
             @ (if m_commandBuffers r acq = None then [CallRecordCmdBuffers acq] else [])
             @ [CallSubmitCommandBuffer acq (m_currentFrame r)]"
  by (auto simp add: drawFrame_def recordCmdBuffers_def Let_def VK_SUCCESS_def VK_SUBOPTIMAL_KHR_def
        VK_ERROR_OUT_OF_DATE_KHR_def)

lemma presentFrame_recreate:
  "result = VK_ERROR_OUT_OF_DATE_KHR \<or> result = VK_SUBOPTIMAL_KHR \<or> m_framebufferResized r \<Longrightarrow>
   calls (presentFrame r result) =
     calls r @ [CallTransitionImageLayout (imageIndex r), CallPresent (imageIndex r), CallRecreateSwapchain]
   \<and> m_framebufferResized (presentFrame r result) = False
   \<and> m_commandBuffers (presentFrame r result) = (\<lambda>i. None)"
  by (simp add: presentFrame_def recreateSwapchain_def deleteCmdBuffers_def Let_def)

lemma presentFrame_fatal:
  "result \<noteq> VK_ERROR_OUT_OF_DATE_KHR \<Longrightarrow> result \<noteq> VK_SUBOPTIMAL_KHR \<Longrightarrow> \<not> m_framebufferResized r \<Longrightarrow>
   result \<noteq> VK_SUCCESS \<Longrightarrow>
   calls (presentFrame r result) =
     calls r @ [CallTransitionImageLayout (imageIndex r), CallPresent (imageIndex r),
                CallFatalError ''failed to present swap chain image!'']"
  by (simp add: presentFrame_def fatalError_def Let_def)

lemma presentFrame_success:
  "result = VK_SUCCESS \<Longrightarrow> \<not> m_framebufferResized r \<Longrightarrow>
   calls (presentFrame r result) =
     calls r @ [CallTransitionImageLayout (imageIndex r), CallPresent (imageIndex r)]"
  by (simp add: presentFrame_def Let_def VK_SUCCESS_def VK_SUBOPTIMAL_KHR_def
        VK_ERROR_OUT_OF_DATE_KHR_def)

text \<open>
  C9: when the acquisition returns the out-of-date result, \<^verbatim>\<open>drawFrame\<close> recreates the
  swap chain and returns: nothing is recorded or submitted and no fatal error is raised.
  Every other result that is neither success nor suboptimal raises the fatal error.
  \<^verbatim>\<open>presentFrame\<close> recreates the swap chain on the out-of-date result, on the suboptimal
  result and on a pending resize, and raises the fatal error on every other result that
  is not success.
\<close>

theorem frame_cycle_results:
  "(result = VK_ERROR_OUT_OF_DATE_KHR \<longrightarrow>
      calls (drawFrame r sm result acq) =
        calls r @ [CallWaitForFences (m_currentFrame r), CallAcquireNextImage (m_currentFrame r),
                   CallRecreateSwapchain]) \<and>
   (result \<noteq> VK_ERROR_OUT_OF_DATE_KHR \<and> result \<noteq> VK_SUCCESS \<and> result \<noteq> VK_SUBOPTIMAL_KHR \<longrightarrow>
      calls (drawFrame r sm result acq) =
        calls r @ [CallWaitForFences (m_currentFrame r), CallAcquireNextImage (m_currentFrame r),
                   CallFatalError ''Failed to acquire swap chain image!'']
                @ (if m_commandBuffers r acq = None then [CallRecordCmdBuffers acq] else [])
                @ [CallSubmitCommandBuffer acq (m_currentFrame r)]) \<and>
   (result = VK_SUCCESS \<or> result = VK_SUBOPTIMAL_KHR \<longrightarrow>
      calls (drawFrame r sm result acq) =
        calls r @ [CallWaitForFences (m_currentFrame r), CallAcquireNextImage (m_currentFrame r)]
                @ (if m_commandBuffers r acq = None then [CallRecordCmdBuffers acq] else [])
                @ [CallSubmitCommandBuffer acq (m_currentFrame r)]) \<and>
   (result = VK_ERROR_OUT_OF_DATE_KHR \<or> result = VK_SUBOPTIMAL_KHR \<or> m_framebufferResized r \<longrightarrow>
      calls (presentFrame r result) =
        calls r @ [CallTransitionImageLayout (imageIndex r), CallPresent (imageIndex r),
                   CallRecreateSwapchain]) \<and>
   (result \<noteq> VK_ERROR_OUT_OF_DATE_KHR \<and> result \<noteq> VK_SUBOPTIMAL_KHR \<and> \<not> m_framebufferResized r
      \<and> result \<noteq> VK_SUCCESS \<longrightarrow>
      calls (presentFrame r result) =
        calls r @ [CallTransitionImageLayout (imageIndex r), CallPresent (imageIndex r),
                   CallFatalError ''failed to present swap chain image!'']) \<and>
   (result = VK_SUCCESS \<and> \<not> m_framebufferResized r \<longrightarrow>
      calls (presentFrame r result) =
        calls r @ [CallTransitionImageLayout (imageIndex r), CallPresent (imageIndex r)])"
  by (intro conjI impI)
     (simp_all add: drawFrame_out_of_date drawFrame_fatal drawFrame_success presentFrame_recreate
        presentFrame_fatal presentFrame_success)

theorem frame_cycle_results_witness:
  "calls (drawFrame ex_renderer ex_sceneManager VK_ERROR_OUT_OF_DATE_KHR 0) =
     [CallWaitForFences 1, CallAcquireNextImage 1, CallRecreateSwapchain] \<and>
   calls (drawFrame ex_renderer ex_sceneManager (- 4) 0) =
     [CallWaitForFences 1, CallAcquireNextImage 1, CallFatalError ''Failed to acquire swap chain image!'',
      CallRecordCmdBuffers 0, CallSubmitCommandBuffer 0 1] \<and>
   calls (drawFrame ex_renderer ex_sceneManager VK_SUBOPTIMAL_KHR 0) =
     [CallWaitForFences 1, CallAcquireNextImage 1, CallRecordCmdBuffers 0, CallSubmitCommandBuffer 0 1] \<and>
   calls (presentFrame ex_renderer VK_SUBOPTIMAL_KHR) =
     [CallTransitionImageLayout 0, CallPresent 0, CallRecreateSwapchain] \<and>
   calls (presentFrame ex_renderer (- 4)) =
     [CallTransitionImageLayout 0, CallPresent 0, CallFatalError ''failed to present swap chain image!''] \<and>
   calls (presentFrame ex_renderer VK_SUCCESS) = [CallTransitionImageLayout 0, CallPresent 0]"
  using frame_cycle_results[of VK_ERROR_OUT_OF_DATE_KHR ex_renderer ex_sceneManager 0]
        frame_cycle_results[of "- 4" ex_renderer ex_sceneManager 0]
        frame_cycle_results[of VK_SUBOPTIMAL_KHR ex_renderer ex_sceneManager 0]
        frame_cycle_results[of VK_SUCCESS ex_renderer ex_sceneManager 0]
  by (simp add: VK_SUCCESS_def VK_SUBOPTIMAL_KHR_def VK_ERROR_OUT_OF_DATE_KHR_def ex_renderer_def)

subsection \<open>The projection matrix\<close>

text \<open>
  C7: for a projective camera with near plane 0.1, far plane 500, aspect ratio 16/9 and
  a field of view of 45 degrees, the matrix of \<^verbatim>\<open>getProjectionMatrix\<close> maps the centre
  of the near plane to the normalized device depth 0 and the centre of the far plane to
  the depth 1, after the perspective division.
\<close>

theorem getProjectionMatrix_depth_range:
  "(let (pm, c') = getProjectionMatrix
        (c\<lparr>m_nearPlane := FNum 0.1, m_farPlane := FNum 500, m_aspectRatio := FNum (16 / 9), m_fov := FNum 45\<rparr>)
    in ndc_depth (mat_vec pm (Vec4 (FNum 0) (FNum 0) (FNum 0.1) (FNum 1))) = FNum 0 \<and>
       ndc_depth (mat_vec pm (Vec4 (FNum 0) (FNum 0) (FNum 500) (FNum 1))) = FNum 1)"
  by (simp add: getProjectionMatrix_def getProjectionMatrix_wh_def perspectiveFov_def radians_def
        ndc_depth_def mat_vec_def vadd4_def vscale4_def fsub_def Let_def)

subsection \<open>The bounding sphere of a mesh\<close>

text \<open>
  C6: the radius that the constructors compute is the square root of the largest
  squared coordinate, not of the largest sum of the three squares.  For the single
  vertex (1, 1, 1) both constructors give the radius 1, which is less than the Euclidean
  distance of that vertex from the origin, the square root of 3.
\<close>

theorem VEMesh_radius_single_vertex:
  "m_boundingSphereRadius (VEMesh_ctor [\<lparr>pos = vec3_of 1 1 1\<rparr>]) = FNum 1 \<and>
   m_boundingSphereRadius (VEMesh_ctor_aiMesh [vec3_of 1 1 1]) = FNum 1 \<and>
   vertex_distance \<lparr>pos = vec3_of 1 1 1\<rparr> = FNum (sqrt 3) \<and>
   fless (m_boundingSphereRadius (VEMesh_ctor [\<lparr>pos = vec3_of 1 1 1\<rparr>])) (vertex_distance \<lparr>pos = vec3_of 1 1 1\<rparr>)"
  by (simp add: VEMesh_ctor_def VEMesh_ctor_aiMesh_def vertex_distance_def vec3_of_def fmax_def dot3_def)

subsection \<open>lookAt\<close>

text \<open>
  C8: with the eye at the origin, the point (1, -1, 0) and the up vector (1, -1, 0), the
  eye differs from the point and up is not zero; up is lined up with the view
  direction, whose components sum to zero, so the replacement of up is the normalized
  zero vector, and the x and y axes of the resulting transform are NaN.
\<close>

theorem lookAt_nan_entries:
  "vec3_of 0 0 0 \<noteq> vec3_of 1 (- 1) 0 \<and> vec3_of 1 (- 1) 0 \<noteq> vec3_of 0 0 0 \<and>
   m_transform (lookAt this (vec3_of 0 0 0) (vec3_of 1 (- 1) 0) (vec3_of 1 (- 1) 0)) =
     Mat4 (Vec4 FNaN FNaN FNaN (FNum 0)) (Vec4 FNaN FNaN FNaN (FNum 0))
          (Vec4 (FNum (1 / sqrt 2)) (FNum (- (1 / sqrt 2))) (FNum 0) (FNum 0))
          (Vec4 (FNum 0) (FNum 0) (FNum 0) (FNum 1)) \<and>
   list_ex is_nan (mat4_entries (m_transform (lookAt this (vec3_of 0 0 0) (vec3_of 1 (- 1) 0) (vec3_of 1 (- 1) 0))))"
  by (simp add: lookAt_def lookAt_matrix_def vec3_of_def normalize_def inversesqrt_def dot3_def vsub3_def
       vscale3_def cross_def fsub_def finf_def Let_def mat4_entries_def is_nan_def)

subsection \<open>Shadow cameras of the directional light\<close>

lemma frustum_interpolate_length:
  "length (frustum_interpolate points z0 z1 i) = length points"
proof (induction "4 - i" arbitrary: i points)
  case 0
  then have "\<not> i < 4" by simp
  then show ?case by (subst frustum_interpolate.simps) simp
next
  case (Suc k)
  then have lt: "i < 4" and k: "k = 4 - (i + 1)" by simp_all
  show ?case
    using lt Suc.hyps(1)[OF k]
    by (subst frustum_interpolate.simps) (simp add: Let_def)
qed

lemma frustum_corners_length: "length (frustum_corners c W) = 8"
  by (cases "cam_class c") (simp_all add: frustum_corners_def Let_def)

lemma getFrustumPoints_Some:
  assumes "worldTransformOf s c = Some W"
  shows "\<exists>pts. getFrustumPoints s c [] z0 z1 = Some pts \<and> pts \<noteq> []"
proof -
  have "length (frustum_interpolate ([] @ frustum_corners c W) z0 z1 0) = 8"
    by (simp add: frustum_interpolate_length frustum_corners_length)
  then have "frustum_interpolate ([] @ frustum_corners c W) z0 z1 0 \<noteq> []" by auto
  then show ?thesis using assms by (simp add: getFrustumPoints_def)
qed

lemma getOBB_Some: "pts \<noteq> [] \<Longrightarrow> \<exists>center width height depth. getOBB W pts = Some (center, width, height, depth)"
  by (cases pts) (simp_all add: getOBB_def Let_def)

lemma VEDirectionalLight_loop_step:
  assumes "i < length cams" "i + 1 < length limits"
    and "worldTransformOf s this = Some W" "worldTransformOf s pCamera = Some Wc"
  shows "\<exists>c. VEDirectionalLight_loop s this pCamera cams i =
               VEDirectionalLight_loop s this pCamera (cams[i := c]) (i + 1) \<and>
             m_nearPlaneFraction c = limits ! i \<and> m_farPlaneFraction c = limits ! (i + 1) \<and>
             cam_class c = cam_class (cams ! i)"
proof -
  from getFrustumPoints_Some[OF assms(4)] obtain pts
    where pts: "getFrustumPoints s pCamera [] (limits ! i) (limits ! (i + 1)) = Some pts" "pts \<noteq> []"
    by blast
  from getOBB_Some[OF pts(2)] obtain center width height depth
    where obb: "getOBB W pts = Some (center, width, height, depth)" by blast
  show ?thesis
    using assms pts(1) obb
    apply (subst VEDirectionalLight_loop.simps)
    apply (simp add: Let_def setTransform_def setPosition_def)
    apply (rule exI, rule conjI, rule refl)
    apply simp
    done
qed

lemma VEDirectionalLight_loop_result:
  assumes "worldTransformOf s this = Some W" "worldTransformOf s pCamera = Some Wc"
  shows "length cams < length limits \<Longrightarrow>
         \<exists>cams'. VEDirectionalLight_loop s this pCamera cams i = Some cams' \<and>
                 length cams' = length cams \<and>
                 (\<forall>j < length cams. if j < i then cams' ! j = cams ! j
                    else m_nearPlaneFraction (cams' ! j) = limits ! j \<and>
                         m_farPlaneFraction (cams' ! j) = limits ! (j + 1) \<and>
                         cam_class (cams' ! j) = cam_class (cams ! j))"
proof (induction "length cams - i" arbitrary: i cams)
  case 0
  then have "\<not> i < length cams" by simp
  then show ?case by (subst VEDirectionalLight_loop.simps) simp
next
  case (Suc k)
  then have lt: "i < length cams" by simp
  with Suc.prems have lim: "i + 1 < length limits" by simp
  from VEDirectionalLight_loop_step[OF lt lim assms] obtain c
    where step: "VEDirectionalLight_loop s this pCamera cams i =
                   VEDirectionalLight_loop s this pCamera (cams[i := c]) (i + 1)"
      and c: "m_nearPlaneFraction c = limits ! i" "m_farPlaneFraction c = limits ! (i + 1)"
             "cam_class c = cam_class (cams ! i)"
    by blast
  have k: "k = length (cams[i := c]) - (i + 1)" using Suc.hyps(2) by simp
  have len: "length (cams[i := c]) < length limits" using Suc.prems by simp
  from Suc.hyps(1)[OF k len] obtain cams'
    where r: "VEDirectionalLight_loop s this pCamera (cams[i := c]) (i + 1) = Some cams'"
      and l: "length cams' = length (cams[i := c])"
      and e: "\<forall>j < length (cams[i := c]). if j < i + 1 then cams' ! j = cams[i := c] ! j
                    else m_nearPlaneFraction (cams' ! j) = limits ! j \<and>
                         m_farPlaneFraction (cams' ! j) = limits ! (j + 1) \<and>
                         cam_class (cams' ! j) = cam_class (cams[i := c] ! j)"
    by blast
  have "\<forall>j < length cams. if j < i then cams' ! j = cams ! j
                    else m_nearPlaneFraction (cams' ! j) = limits ! j \<and>
                         m_farPlaneFraction (cams' ! j) = limits ! (j + 1) \<and>
                         cam_class (cams' ! j) = cam_class (cams ! j)"
  proof (intro allI impI)
    fix j assume j: "j < length cams"
    with e have ej: "if j < i + 1 then cams' ! j = cams[i := c] ! j
                    else m_nearPlaneFraction (cams' ! j) = limits ! j \<and>
                         m_farPlaneFraction (cams' ! j) = limits ! (j + 1) \<and>
                         cam_class (cams' ! j) = cam_class (cams[i := c] ! j)" by simp
    show "if j < i then cams' ! j = cams ! j
                    else m_nearPlaneFraction (cams' ! j) = limits ! j \<and>
                         m_farPlaneFraction (cams' ! j) = limits ! (j + 1) \<and>
                         cam_class (cams' ! j) = cam_class (cams ! j)"
    proof (cases "j = i")
      case True
      with ej lt c show ?thesis by simp
    next
      case False
      with ej j show ?thesis by (cases "j < i") simp_all
    qed
  qed
  with step r l show ?case by simp
qed

lemma push_back_n_length: "length (push_back_n n c xs) = length xs + n"
  by (induction n arbitrary: xs) simp_all

text \<open>
  C3: the constructor of the directional light makes 4 shadow cameras.  On a light with
  4 shadow cameras, with world transforms of the light and of the viewer camera that
  return, \<^verbatim>\<open>updateShadowCameras\<close> returns, keeps the 4 cameras, and leaves in camera i
  the fractions \<open>limits ! i\<close> and \<open>limits ! (i + 1)\<close>: the pairs (0, 0.05), (0.05, 0.15),
  (0.15, 0.5), (0.5, 1), each starting where the one before ends.
\<close>

theorem directional_cascade_fractions:
  assumes "length (m_shadowCameras this) = 4"
    and "worldTransformOf s this = Some W" and "worldTransformOf s pCamera = Some Wc"
  shows "length (m_shadowCameras (VEDirectionalLight_ctor transf parent param d)) = 4 \<and>
         (\<exists>this'. VEDirectionalLight_updateShadowCameras s this pCamera = Some this' \<and>
            length (m_shadowCameras this') = 4 \<and>
            map (\<lambda>c. (m_nearPlaneFraction c, m_farPlaneFraction c)) (m_shadowCameras this') =
              map (\<lambda>i. (limits ! i, limits ! (i + 1))) [0 ..< 4] \<and>
            map (\<lambda>c. (m_nearPlaneFraction c, m_farPlaneFraction c)) (m_shadowCameras this') =
              [(FNum 0, FNum 0.05), (FNum 0.05, FNum 0.15), (FNum 0.15, FNum 0.5), (FNum 0.5, FNum 1)])"
proof -
  have a: "length (m_shadowCameras (VEDirectionalLight_ctor transf parent param d)) = 4"
    by (simp add: VEDirectionalLight_ctor_def VELight_ctor_def Let_def push_back_n_length)
  have "length (m_shadowCameras this) < length limits" using assms(1) by (simp add: limits_def)
  from VEDirectionalLight_loop_result[OF assms(2,3) this, of 0] obtain cams'
    where r: "VEDirectionalLight_loop s this pCamera (m_shadowCameras this) 0 = Some cams'"
      and l: "length cams' = 4"
      and e: "\<forall>j < 4. m_nearPlaneFraction (cams' ! j) = limits ! j \<and>
                       m_farPlaneFraction (cams' ! j) = limits ! (j + 1)"
    using assms(1) by auto
  have m: "map (\<lambda>c. (m_nearPlaneFraction c, m_farPlaneFraction c)) cams' =
             map (\<lambda>i. (limits ! i, limits ! (i + 1))) [0 ..< 4]"
    using l e by (intro nth_equalityI) simp_all
  have m2: "map (\<lambda>i. (limits ! i, limits ! (i + 1))) [0 ..< 4] =
              [(FNum 0, FNum 0.05), (FNum 0.05, FNum 0.15), (FNum 0.15, FNum 0.5), (FNum 0.5, FNum 1)]"
    by (simp add: limits_def upt_conv_Cons)
  have "VEDirectionalLight_updateShadowCameras s this pCamera = Some (this\<lparr>m_shadowCameras := cams'\<rparr>)"
    using r by (simp add: VEDirectionalLight_updateShadowCameras_def)
  then have b: "\<exists>this'. VEDirectionalLight_updateShadowCameras s this pCamera = Some this' \<and>
            length (m_shadowCameras this') = 4 \<and>
            map (\<lambda>c. (m_nearPlaneFraction c, m_farPlaneFraction c)) (m_shadowCameras this') =
              map (\<lambda>i. (limits ! i, limits ! (i + 1))) [0 ..< 4] \<and>
            map (\<lambda>c. (m_nearPlaneFraction c, m_farPlaneFraction c)) (m_shadowCameras this') =
              [(FNum 0, FNum 0.05), (FNum 0.05, FNum 0.15), (FNum 0.15, FNum 0.5), (FNum 0.5, FNum 1)]"
    using l m m2 by simp
  show ?thesis by (rule conjI[OF a b])
qed

theorem directional_cascade_fractions_witness:
  "length (m_shadowCameras ex_directional) = 4 \<and>
   worldTransformOf ex_store ex_directional =
     Some (mat_mul (mat_mul (translation 1 0 0) (translation 0 2 0)) (translation 0 10 0)) \<and>
   worldTransformOf ex_store ex_camera = Some mat4_identity \<and>
   (\<exists>this'. VEDirectionalLight_updateShadowCameras ex_store ex_directional ex_camera = Some this' \<and>
      map (\<lambda>c. (m_nearPlaneFraction c, m_farPlaneFraction c)) (m_shadowCameras this') =
        [(FNum 0, FNum 0.05), (FNum 0.05, FNum 0.15), (FNum 0.15, FNum 0.5), (FNum 0.5, FNum 1)])"
proof -
  have h1: "length (m_shadowCameras ex_directional) = 4"
    by (simp add: ex_directional_def VEDirectionalLight_ctor_def VELight_ctor_def Let_def push_back_n_length)
  have g2: "getWorldTransform ex_store 2 = Some (mat_mul (translation 1 0 0) (translation 0 2 0))"
    using chain_world[of ex_store 2 "[1]"] by (simp add: ex_store_def)
  have h2: "worldTransformOf ex_store ex_directional =
     Some (mat_mul (mat_mul (translation 1 0 0) (translation 0 2 0)) (translation 0 10 0))"
    using g2 by (simp add: worldTransformOf_def ex_directional_def VEDirectionalLight_ctor_def VELight_ctor_def Let_def)
  have h3: "worldTransformOf ex_store ex_camera = Some mat4_identity"
    by (simp add: worldTransformOf_def ex_camera_def)
  from directional_cascade_fractions[OF h1 h2 h3, of mat4_identity None "vec4_of 0 0 0 0" ex_camera]
  have "\<exists>this'. VEDirectionalLight_updateShadowCameras ex_store ex_directional ex_camera = Some this' \<and>
            length (m_shadowCameras this') = 4 \<and>
            map (\<lambda>c. (m_nearPlaneFraction c, m_farPlaneFraction c)) (m_shadowCameras this') =
              map (\<lambda>i. (limits ! i, limits ! (i + 1))) [0 ..< 4] \<and>
            map (\<lambda>c. (m_nearPlaneFraction c, m_farPlaneFraction c)) (m_shadowCameras this') =
              [(FNum 0, FNum 0.05), (FNum 0.05, FNum 0.15), (FNum 0.15, FNum 0.5), (FNum 0.5, FNum 1)]"
    by (rule conjunct2)
  then have "\<exists>this'. VEDirectionalLight_updateShadowCameras ex_store ex_directional ex_camera = Some this' \<and>
      map (\<lambda>c. (m_nearPlaneFraction c, m_farPlaneFraction c)) (m_shadowCameras this') =
        [(FNum 0, FNum 0.05), (FNum 0.05, FNum 0.15), (FNum 0.15, FNum 0.5), (FNum 0.5, FNum 1)]"
    by (elim exE conjE) (rule exI, rule conjI, assumption+)
  with h1 h2 h3 show ?thesis by (intro conjI)
qed

subsection \<open>Shadow cameras of the point light\<close>

lemma VEPointLight_loop_result:
  "length cams \<le> 6 \<Longrightarrow>
   \<exists>cams'. VEPointLight_loop lnear llength eye cams i = Some cams' \<and>
           length cams' = length cams \<and>
           (\<forall>j < length cams. if j < i then cams' ! j = cams ! j
              else cam_class (cams' ! j) = cam_class (cams ! j) \<and>
                   m_fov (cams' ! j) = FNum 91 \<and>
                   m_aspectRatio (cams' ! j) = FNum 1 \<and>
                   m_nearPlane (cams' ! j) = lnear \<and>
                   m_farPlane (cams' ! j) = fadd lnear llength \<and>
                   m_transform (cams' ! j) =
                     lookAt_matrix eye (vadd3 eye (point_zaxis ! j)) (point_up ! j))"
proof (induction "length cams - i" arbitrary: i cams)
  case 0
  then have "\<not> i < length cams" by simp
  then show ?case by (subst VEPointLight_loop.simps) simp
next
  case (Suc k)
  then have lt: "i < length cams" by simp
  with Suc.prems have tab: "i < length point_zaxis \<and> i < length point_up"
    by (simp add: point_zaxis_def point_up_def)
  define c where "c = lookAt ((cams ! i)\<lparr>m_aspectRatio := FNum 1, m_fov := FNum 91,
                                m_nearPlane := lnear, m_farPlane := fadd lnear llength,
                                m_nearPlaneFraction := FNum 0, m_farPlaneFraction := FNum 1\<rparr>)
                       eye (vadd3 eye (point_zaxis ! i)) (point_up ! i)"
  have step: "VEPointLight_loop lnear llength eye cams i =
                VEPointLight_loop lnear llength eye (cams[i := c]) (i + 1)"
    using lt tab by (subst VEPointLight_loop.simps) (simp add: Let_def c_def)
  have cf: "cam_class c = cam_class (cams ! i)" "m_fov c = FNum 91" "m_aspectRatio c = FNum 1"
    "m_nearPlane c = lnear" "m_farPlane c = fadd lnear llength"
    "m_transform c = lookAt_matrix eye (vadd3 eye (point_zaxis ! i)) (point_up ! i)"
    by (simp_all add: c_def lookAt_def)
  have k: "k = length (cams[i := c]) - (i + 1)" using Suc.hyps(2) by simp
  have len: "length (cams[i := c]) \<le> 6" using Suc.prems by simp
  from Suc.hyps(1)[OF k len] obtain cams'
    where r: "VEPointLight_loop lnear llength eye (cams[i := c]) (i + 1) = Some cams'"
      and l: "length cams' = length (cams[i := c])"
      and e: "\<forall>j < length (cams[i := c]). if j < i + 1 then cams' ! j = cams[i := c] ! j
              else cam_class (cams' ! j) = cam_class (cams[i := c] ! j) \<and>
                   m_fov (cams' ! j) = FNum 91 \<and>
                   m_aspectRatio (cams' ! j) = FNum 1 \<and>
                   m_nearPlane (cams' ! j) = lnear \<and>
                   m_farPlane (cams' ! j) = fadd lnear llength \<and>
                   m_transform (cams' ! j) =
                     lookAt_matrix eye (vadd3 eye (point_zaxis ! j)) (point_up ! j)"
    by blast
  have "\<forall>j < length cams. if j < i then cams' ! j = cams ! j
              else cam_class (cams' ! j) = cam_class (cams ! j) \<and>
                   m_fov (cams' ! j) = FNum 91 \<and>
                   m_aspectRatio (cams' ! j) = FNum 1 \<and>
                   m_nearPlane (cams' ! j) = lnear \<and>
                   m_farPlane (cams' ! j) = fadd lnear llength \<and>
                   m_transform (cams' ! j) =
                     lookAt_matrix eye (vadd3 eye (point_zaxis ! j)) (point_up ! j)"
  proof (intro allI impI)
    fix j assume j: "j < length cams"
    with e have ej: "if j < i + 1 then cams' ! j = cams[i := c] ! j
              else cam_class (cams' ! j) = cam_class (cams[i := c] ! j) \<and>
                   m_fov (cams' ! j) = FNum 91 \<and>
                   m_aspectRatio (cams' ! j) = FNum 1 \<and>
                   m_nearPlane (cams' ! j) = lnear \<and>
                   m_farPlane (cams' ! j) = fadd lnear llength \<and>
                   m_transform (cams' ! j) =
                     lookAt_matrix eye (vadd3 eye (point_zaxis ! j)) (point_up ! j)" by simp
    show "if j < i then cams' ! j = cams ! j
              else cam_class (cams' ! j) = cam_class (cams ! j) \<and>
                   m_fov (cams' ! j) = FNum 91 \<and>
                   m_aspectRatio (cams' ! j) = FNum 1 \<and>
                   m_nearPlane (cams' ! j) = lnear \<and>
                   m_farPlane (cams' ! j) = fadd lnear llength \<and>
                   m_transform (cams' ! j) =
                     lookAt_matrix eye (vadd3 eye (point_zaxis ! j)) (point_up ! j)"
    proof (cases "j = i")
      case True
      with ej lt cf show ?thesis by simp
    next
      case False
      with ej j show ?thesis by (cases "j < i") simp_all
    qed
  qed
  with step r l show ?case by simp
qed

lemma push_back_n_replicate: "push_back_n n c xs = xs @ replicate n c"
  by (induction n arbitrary: xs) (simp_all add: replicate_append_same)

text \<open>
  C5: the constructor of the point light makes 6 projective shadow cameras.  On a light
  with 6 shadow cameras whose world transform returns, \<^verbatim>\<open>updateShadowCameras\<close> returns
  and leaves in every camera the near plane 0.1, the far plane 0.1 plus the first
  component of \<^verbatim>\<open>m_param\<close>, and the transform of \<^verbatim>\<open>lookAt\<close> from the world position
  of the light along the i-th axis direction with the i-th up vector.  The field of view
  that it stores is 91 degrees, not 90.
\<close>

theorem point_light_shadow_cameras:
  assumes "length (m_shadowCameras this) = 6" and "worldTransformOf s this = Some W"
  shows "map cam_class (m_shadowCameras (VEPointLight_ctor transf parent param d))
           = replicate 6 VECameraProjective \<and>
         (\<exists>this'. VEPointLight_updateShadowCameras s this pCamera = Some this' \<and>
            length (m_shadowCameras this') = 6 \<and>
            map cam_class (m_shadowCameras this') = map cam_class (m_shadowCameras this) \<and>
            map m_fov (m_shadowCameras this') = replicate 6 (FNum 91) \<and>
            map m_nearPlane (m_shadowCameras this') = replicate 6 (FNum 0.1) \<and>
            map m_farPlane (m_shadowCameras this') = replicate 6 (fadd (FNum 0.1) (v4x (m_param this))) \<and>
            map m_transform (m_shadowCameras this') =
              map (\<lambda>i. lookAt_matrix (Vec3 (v4x (col3 W)) (v4y (col3 W)) (v4z (col3 W)))
                          (vadd3 (Vec3 (v4x (col3 W)) (v4y (col3 W)) (v4z (col3 W))) (point_zaxis ! i))
                          (point_up ! i)) [0 ..< 6]) \<and>
         FNum 91 \<noteq> FNum 90"
proof -
  let ?pos = "Vec3 (v4x (col3 W)) (v4y (col3 W)) (v4z (col3 W))"
  let ?far = "fadd (FNum 0.1) (v4x (m_param this))"
  have a: "map cam_class (m_shadowCameras (VEPointLight_ctor transf parent param d))
           = replicate 6 VECameraProjective"
    by (simp add: VEPointLight_ctor_def VELight_ctor_def Let_def push_back_n_replicate
          VECameraProjective_new_def)
  have "length (m_shadowCameras this) \<le> 6" using assms(1) by simp
  from VEPointLight_loop_result[OF this, of "FNum 0.1" "v4x (m_param this)" ?pos 0] obtain cams'
    where r: "VEPointLight_loop (FNum 0.1) (v4x (m_param this)) ?pos (m_shadowCameras this) 0 = Some cams'"
      and l: "length cams' = 6"
      and e: "\<forall>j < 6. cam_class (cams' ! j) = cam_class (m_shadowCameras this ! j) \<and>
                   m_fov (cams' ! j) = FNum 91 \<and>
                   m_nearPlane (cams' ! j) = FNum 0.1 \<and>
                   m_farPlane (cams' ! j) = ?far \<and>
                   m_transform (cams' ! j) =
                     lookAt_matrix ?pos (vadd3 ?pos (point_zaxis ! j)) (point_up ! j)"
    using assms(1) by auto
  have u: "VEPointLight_updateShadowCameras s this pCamera = Some (this\<lparr>m_shadowCameras := cams'\<rparr>)"
    using r assms(2) by (simp add: VEPointLight_updateShadowCameras_def Let_def)
  have m1: "map cam_class cams' = map cam_class (m_shadowCameras this)"
    using l e assms(1) by (intro nth_equalityI) simp_all
  have m2: "map m_fov cams' = replicate 6 (FNum 91)"
    using l e by (intro nth_equalityI) simp_all
  have m3: "map m_nearPlane cams' = replicate 6 (FNum 0.1)"
    using l e by (intro nth_equalityI) simp_all
  have m4: "map m_farPlane cams' = replicate 6 ?far"
    using l e by (intro nth_equalityI) simp_all
  have m5: "map m_transform cams' =
              map (\<lambda>i. lookAt_matrix ?pos (vadd3 ?pos (point_zaxis ! i)) (point_up ! i)) [0 ..< 6]"
    using l e by (intro nth_equalityI) simp_all
  have b: "\<exists>this'. VEPointLight_updateShadowCameras s this pCamera = Some this' \<and>
            length (m_shadowCameras this') = 6 \<and>
            map cam_class (m_shadowCameras this') = map cam_class (m_shadowCameras this) \<and>
            map m_fov (m_shadowCameras this') = replicate 6 (FNum 91) \<and>
            map m_nearPlane (m_shadowCameras this') = replicate 6 (FNum 0.1) \<and>
            map m_farPlane (m_shadowCameras this') = replicate 6 ?far \<and>
            map m_transform (m_shadowCameras this') =
              map (\<lambda>i. lookAt_matrix ?pos (vadd3 ?pos (point_zaxis ! i)) (point_up ! i)) [0 ..< 6]"
    using u l m1 m2 m3 m4 m5 by simp
  have c: "FNum 91 \<noteq> FNum 90" by simp
  show ?thesis by (rule conjI[OF a conjI[OF b c]])
qed

theorem point_light_shadow_cameras_witness:
  "length (m_shadowCameras ex_point) = 6 \<and>
   worldTransformOf ex_store ex_point =
     Some (mat_mul (mat_mul (translation 1 0 0) (translation 0 2 0)) (translation 0 10 0)) \<and>
   (\<exists>this'. VEPointLight_updateShadowCameras ex_store ex_point ex_camera = Some this' \<and>
      map m_fov (m_shadowCameras this') = replicate 6 (FNum 91))"
proof -
  have h1: "length (m_shadowCameras ex_point) = 6"
    by (simp add: ex_point_def VEPointLight_ctor_def VELight_ctor_def Let_def push_back_n_length)
  have g2: "getWorldTransform ex_store 2 = Some (mat_mul (translation 1 0 0) (translation 0 2 0))"
    using chain_world[of ex_store 2 "[1]"] by (simp add: ex_store_def)
  have h2: "worldTransformOf ex_store ex_point =
     Some (mat_mul (mat_mul (translation 1 0 0) (translation 0 2 0)) (translation 0 10 0))"
    using g2 by (simp add: worldTransformOf_def ex_point_def VEPointLight_ctor_def VELight_ctor_def Let_def)
  note t = point_light_shadow_cameras[OF h1 h2, of mat4_identity None "vec4_of 0 0 0 0" ex_camera ex_camera]
  from t have "\<exists>this'. VEPointLight_updateShadowCameras ex_store ex_point ex_camera = Some this' \<and>
      map m_fov (m_shadowCameras this') = replicate 6 (FNum 91)"
    by (elim exE conjE) (rule exI, rule conjI, assumption+)
  with h1 h2 show ?thesis by (intro conjI)
qed

end
